theory Spec2Isabelle
  imports
    Main
    "HOL-Library.AList"
    "HOL-Library.Char_ord"
    "HOL-Library.List_Lexorder"
    "HOL-Library.Option_ord"
    "HOL-Library.Product_Lexorder"
    "HOL-Library.Sublist"
    "HOL-Library.Multiset"
begin

section \<open>Strings and dictionaries of the Python source\<close>

text \<open>
  Strings are \<^typ>\<open>string\<close>, compared lexicographically by character code as Python
  compares \<open>str\<close> values.  The string methods are modelled on ASCII text: \<open>lower\<close> maps
  \<open>A\<close>..\<open>Z\<close> to \<open>a\<close>..\<open>z\<close>, and \<open>strip\<close> removes the ASCII characters for which
  \<open>str.isspace\<close> holds (codes 9 to 13 and 28 to 32) from both ends.
\<close>

definition lower_char :: "char \<Rightarrow> char" where
  "lower_char c =
     (if CHR ''A'' \<le> c \<and> c \<le> CHR ''Z'' then char_of (of_char c + (32::nat)) else c)"

definition lower :: "string \<Rightarrow> string" where
  "lower s = map lower_char s"

definition is_space :: "char \<Rightarrow> bool" where
  "is_space c \<longleftrightarrow>
     (let n = (of_char c :: nat) in (9 \<le> n \<and> n \<le> 13) \<or> (28 \<le> n \<and> n \<le> 32))"

definition strip :: "string \<Rightarrow> string" where
  "strip s = rev (dropWhile is_space (rev (dropWhile is_space s)))"

definition is_digit :: "char \<Rightarrow> bool" where
  "is_digit c \<longleftrightarrow> CHR ''0'' \<le> c \<and> c \<le> CHR ''9''"

definition digit_val :: "char \<Rightarrow> nat" where
  "digit_val c = of_char c - 48"

definition digit_char :: "nat \<Rightarrow> char" where
  "digit_char n = char_of (48 + n)"

text \<open>\<open>str(n)\<close> for a Python integer: its decimal digits, with a minus sign when negative.\<close>

fun show_nat :: "nat \<Rightarrow> string" where
  "show_nat n =
     (if n < 10 then [digit_char n] else show_nat (n div 10) @ [digit_char (n mod 10)])"

declare show_nat.simps [simp del]

definition show_int :: "int \<Rightarrow> string" where
  "show_int i = (if i < 0 then CHR ''-'' # show_nat (nat (- i)) else show_nat (nat i))"

text \<open>
  \<open>int(s)\<close> for a string: surrounding whitespace is ignored (for ASCII text the codes 9 to
  13 and 32 only: \<open>int\<close> does not accept the separators 28 to 31 that \<open>strip\<close> removes), then
  an optional sign, then decimal digits in which single underscores may separate digits.
  Anything else raises \<open>ValueError\<close>, which is \<open>None\<close> here.
\<close>

definition is_int_space :: "char \<Rightarrow> bool" where
  "is_int_space c \<longleftrightarrow> (let n = (of_char c :: nat) in (9 \<le> n \<and> n \<le> 13) \<or> n = 32)"

fun int_digits :: "nat \<Rightarrow> string \<Rightarrow> nat option" where
  "int_digits acc [] = Some acc"
| "int_digits acc [c] = (if is_digit c then Some (10 * acc + digit_val c) else None)"
| "int_digits acc (c # d # ds) =
     (if is_digit c then int_digits (10 * acc + digit_val c) (d # ds)
      else if c = CHR ''_'' \<and> is_digit d then int_digits (10 * acc + digit_val d) ds
      else None)"

definition unsigned_int :: "string \<Rightarrow> nat option" where
  "unsigned_int s =
     (case s of [] \<Rightarrow> None
      | d # ds \<Rightarrow> if is_digit d then int_digits (digit_val d) ds else None)"

definition py_int :: "string \<Rightarrow> int option" where
  "py_int s =
     (case rev (dropWhile is_int_space (rev (dropWhile is_int_space s))) of
        [] \<Rightarrow> None
      | c # cs \<Rightarrow>
          if c = CHR ''-'' then map_option (\<lambda>n. - int n) (unsigned_int cs)
          else if c = CHR ''+'' then map_option int (unsigned_int cs)
          else map_option int (unsigned_int (c # cs)))"

text \<open>
  A value held in a row dictionary is a string or Python's \<open>None\<close>: \<open>Some s\<close> or \<open>None\<close>.
  A Python \<open>dict\<close> with string keys is an association list in insertion order:
  \<open>d.get(k, dflt)\<close> is \<open>dict_get\<close>, and storing under a key is \<^const>\<open>AList.update\<close> (an
  existing key keeps its place and takes the new value, a new key goes last).
\<close>

type_synonym pyval = "string option"

type_synonym dict = "(string \<times> pyval) list"

definition dict_get :: "dict \<Rightarrow> string \<Rightarrow> pyval \<Rightarrow> pyval" where
  "dict_get d k dflt = (case map_of d k of None \<Rightarrow> dflt | Some v \<Rightarrow> v)"

datatype error =
    NoInputFiles         \<comment> \<open>\<open>FileNotFoundError\<close> raised by \<open>main\<close>\<close>
  | RankingUnavailable   \<comment> \<open>\<open>RuntimeError\<close> raised by \<open>main\<close>\<close>
  | NetworkError         \<comment> \<open>\<open>HTTPError\<close>, \<open>URLError\<close> or \<open>TimeoutError\<close>\<close>
  | UncaughtIOError      \<comment> \<open>any other exception of \<open>urlopen\<close> or \<open>read\<close>\<close>
  | DecodeError          \<comment> \<open>\<open>json.loads\<close> fails, or the document is not an array of objects\<close>
  | TypeError
  | ValueError
  | KeyError

section \<open>The merge engine\<close>

text \<open>The four-key dictionary stored per symbol in the ranking map.\<close>

record ranked_coin =
  coin_id :: string
  coin_name :: string
  coin_symbol :: string
  coin_rank :: string

type_synonym ranking = "(string \<times> ranked_coin) list"

text \<open>
  An input file: its name, and the lines \<open>csv.reader\<close> yields for it, each a list of cells
  (a blank line is the empty list).
\<close>

record asset_file =
  name :: string
  csv_lines :: "string list list"

text \<open>
  \<open>csv.DictReader\<close>: the field names are the first line, whatever it is (\<open>None\<close> for a file
  without lines, which \<open>reader.fieldnames or []\<close> turns into the empty list).  Every later
  line that is not blank gives a row \<open>dict(zip(fieldnames, line))\<close>; a line shorter than the
  field names gets \<open>None\<close> under the remaining ones.  (The cells of a longer line go under
  the key \<open>None\<close>, which no lookup by a column name sees.)
\<close>

definition fieldnames :: "asset_file \<Rightarrow> string list" where
  "fieldnames f = (case csv_lines f of [] \<Rightarrow> [] | header # _ \<Rightarrow> header)"

definition dict_row :: "string list \<Rightarrow> string list \<Rightarrow> dict" where
  "dict_row names line =
     fold (\<lambda>k d. AList.update k None d) (drop (length line) names)
       (fold (\<lambda>kv d. AList.update (fst kv) (Some (snd kv)) d) (zip names line) [])"

definition reader_rows :: "asset_file \<Rightarrow> dict list" where
  "reader_rows f =
     (case csv_lines f of
        [] \<Rightarrow> []
      | header # ls \<Rightarrow> map (dict_row header) (filter (\<lambda>line. line \<noteq> []) ls))"

definition parse_symbol_from_filename :: "asset_file \<Rightarrow> string" where
  "parse_symbol_from_filename f =
     lower (take (length (name f) - length ''-usd-max.csv'') (name f))"

definition list_input_files :: "asset_file list \<Rightarrow> asset_file list" where
  "list_input_files raw_dir =
     sort_key (\<lambda>p. lower (name p)) (filter (\<lambda>p. suffix ''-usd-max.csv'' (name p)) raw_dir)"

definition placeholder :: "string \<Rightarrow> ranked_coin" where
  "placeholder symbol =
     \<lparr>coin_id = '''', coin_name = '''', coin_symbol = symbol, coin_rank = ''999999''\<rparr>"

definition coin_meta_for :: "ranking \<Rightarrow> asset_file \<Rightarrow> ranked_coin" where
  "coin_meta_for symbol_to_coin f =
     (case map_of symbol_to_coin (parse_symbol_from_filename f) of
        None \<Rightarrow> placeholder (parse_symbol_from_filename f)
      | Some coin_meta \<Rightarrow> coin_meta)"

definition fixed_headers :: "string list" where
  "fixed_headers = [''coin_rank'', ''coin_id'', ''coin_name'', ''coin_symbol'', ''source_file'']"

text \<open>
  The dictionary literal of the inner loop: the five fixed entries first, then one entry
  \<open>row.get(k, "")\<close> per base header, which replaces a fixed entry of the same name.
\<close>

definition merged_row :: "ranked_coin \<Rightarrow> string \<Rightarrow> string list \<Rightarrow> dict \<Rightarrow> dict" where
  "merged_row coin_meta file_name base_headers row =
     fold (\<lambda>k d. AList.update k (dict_get row k (Some '''')) d) base_headers
       [(''coin_rank'', Some (coin_rank coin_meta)),
        (''coin_id'', Some (coin_id coin_meta)),
        (''coin_name'', Some (coin_name coin_meta)),
        (''coin_symbol'', Some (coin_symbol coin_meta)),
        (''source_file'', Some file_name)]"

definition file_rows :: "ranking \<Rightarrow> string list \<Rightarrow> asset_file \<Rightarrow> dict list" where
  "file_rows symbol_to_coin base_headers f =
     map (merged_row (coin_meta_for symbol_to_coin f) (name f) base_headers) (reader_rows f)"

text \<open>The loop over the files, with its three accumulators.\<close>

fun ingest ::
  "ranking \<Rightarrow> asset_file list \<Rightarrow> dict list \<times> string list \<times> string list
     \<Rightarrow> dict list \<times> string list \<times> string list" where
  "ingest symbol_to_coin [] acc = acc"
| "ingest symbol_to_coin (f # fs) (all_rows, unmatched_files, base_headers) =
     (let unmatched_files' =
            (case map_of symbol_to_coin (parse_symbol_from_filename f) of
               None \<Rightarrow> unmatched_files @ [name f]
             | Some _ \<Rightarrow> unmatched_files);
          base_headers' = (if base_headers = [] then fieldnames f else base_headers)
      in ingest symbol_to_coin fs
           (all_rows @ file_rows symbol_to_coin base_headers' f, unmatched_files', base_headers'))"

text \<open>
  The sort key \<open>(int(item["coin_rank"]), item["coin_symbol"], item.get("snapped_at", ""))\<close>.
  \<open>int(None)\<close> raises \<open>TypeError\<close>.
\<close>

type_synonym sort_key = "int \<times> pyval \<times> pyval"

definition sort_key_of :: "dict \<Rightarrow> error + sort_key" where
  "sort_key_of item =
     (case map_of item ''coin_rank'' of
        None \<Rightarrow> Inl KeyError
      | Some None \<Rightarrow> Inl TypeError
      | Some (Some r) \<Rightarrow>
          (case py_int r of
             None \<Rightarrow> Inl ValueError
           | Some n \<Rightarrow>
               (case map_of item ''coin_symbol'' of
                  None \<Rightarrow> Inl KeyError
                | Some s \<Rightarrow> Inr (n, s, dict_get item ''snapped_at'' (Some '''')))))"

text \<open>
  Python compares two key tuples at the first position where they differ, with \<open><\<close>; that
  raises \<open>TypeError\<close> when one of the two values is \<open>None\<close>.  (Equal values, also two
  \<open>None\<close>, are passed over.)
\<close>

definition comparable :: "sort_key \<Rightarrow> sort_key \<Rightarrow> bool" where
  "comparable k k' =
     (case (k, k') of
        ((r, s, t), (r', s', t')) \<Rightarrow>
          if r \<noteq> r' then True
          else if s \<noteq> s' then s \<noteq> None \<and> s' \<noteq> None
          else if t \<noteq> t' then t \<noteq> None \<and> t' \<noteq> None
          else True)"

text \<open>
  \<open>list.sort(key=...)\<close> computes the key of every element, in order, and then sorts the
  elements stably by their keys.  Where the list holds two keys whose comparison raises, the
  sort raises: no order between them follows from comparisons with other keys, so a sort
  that finishes has compared them.  Otherwise the keys are ordered as tuples of an integer
  and two strings, which is the order of \<^typ>\<open>sort_key\<close> on them.
\<close>

fun keyed :: "dict list \<Rightarrow> error + (sort_key \<times> dict) list" where
  "keyed [] = Inr []"
| "keyed (item # items) =
     (case sort_key_of item of
        Inl e \<Rightarrow> Inl e
      | Inr k \<Rightarrow> (case keyed items of Inl e \<Rightarrow> Inl e | Inr ks \<Rightarrow> Inr ((k, item) # ks)))"

definition sort_rows :: "dict list \<Rightarrow> error + dict list" where
  "sort_rows all_rows =
     (case keyed all_rows of
        Inl e \<Rightarrow> Inl e
      | Inr ks \<Rightarrow>
          if list_all (\<lambda>k. list_all (comparable k) (map fst ks)) (map fst ks)
          then Inr (map snd (sort_key fst ks))
          else Inl TypeError)"

definition build_merged_rows ::
  "asset_file list \<Rightarrow> ranking \<Rightarrow> error + string list \<times> dict list \<times> string list" where
  "build_merged_rows files symbol_to_coin =
     (case ingest symbol_to_coin files ([], [], []) of
        (all_rows, unmatched_files, base_headers) \<Rightarrow>
          (case sort_rows all_rows of
             Inl e \<Rightarrow> Inl e
           | Inr sorted_rows \<Rightarrow> Inr (fixed_headers @ base_headers, sorted_rows, unmatched_files)))"
section \<open>The network and the two ranking adapters\<close>

text \<open>
  A JSON value as the primary adapter uses it: \<open>None\<close>, a string, an integer, or any other
  value, which is kept as the text \<open>str\<close> gives for it.  A record of the listing endpoint
  is a JSON object, that is a dictionary of such values.
\<close>

datatype jval = JNull | JStr string | JInt int | JRepr string

fun py_str :: "jval \<Rightarrow> string" where
  "py_str JNull = ''None''"
| "py_str (JStr s) = s"
| "py_str (JInt i) = show_int i"
| "py_str (JRepr s) = s"

type_synonym api_row = "(string \<times> jval) list"

text \<open>
  What \<open>json.loads\<close> makes of a response body: \<open>JsonError\<close> when decoding raises or the
  document is not an array of objects, otherwise the array (a falsy document counts as
  the empty array, since the loop only tests \<open>not data\<close>).
\<close>

datatype json_doc = JsonError | JsonRows "api_row list"

text \<open>
  What the patterns of the fallback adapter find in one table row element: group 1 of the
  rank pattern, group 1 of the symbol pattern, and the display name after \<open>strip\<close> and
  \<open>unescape\<close>; \<open>None\<close> where a pattern does not match.
\<close>

record web_row =
  rank_match :: "string option"
  symbol_match :: "string option"
  name_text :: "string option"

text \<open>
  A response body is represented by its two readings: the JSON document it decodes to,
  and the list of table row elements that \<open>row_pattern.findall\<close> returns for it.
\<close>

record payload =
  json_loads :: json_doc
  findall_rows :: "web_row list"

text \<open>
  A reply of the network to one request: \<open>Failure\<close> is an exception of one of the three
  classes the code catches, \<open>Broken\<close> any other exception of \<open>urlopen\<close> or \<open>read\<close> (a
  dropped connection, an incomplete read), \<open>Body\<close> a response.
\<close>

datatype reply = Failure | Broken | Body payload

text \<open>
  The outside world: the replies the network will give to the coming requests, in order
  (when none is left the request fails), the URLs requested so far, and the delays slept
  so far, in milliseconds.
\<close>

record world =
  pending :: "reply list"
  requested :: "string list"
  slept :: "nat list"

definition request_text :: "string \<Rightarrow> world \<Rightarrow> (error + payload) \<times> world" where
  "request_text url w =
     (case pending w of
        [] \<Rightarrow> (Inl NetworkError, w\<lparr>requested := requested w @ [url]\<rparr>)
      | Failure # rs \<Rightarrow> (Inl NetworkError, w\<lparr>pending := rs, requested := requested w @ [url]\<rparr>)
      | Broken # rs \<Rightarrow> (Inl UncaughtIOError, w\<lparr>pending := rs, requested := requested w @ [url]\<rparr>)
      | Body p # rs \<Rightarrow> (Inr p, w\<lparr>pending := rs, requested := requested w @ [url]\<rparr>))"

definition sleep :: "nat \<Rightarrow> world \<Rightarrow> world" where
  "sleep ms w = w\<lparr>slept := slept w @ [ms]\<rparr>"

definition api_url :: "nat \<Rightarrow> nat \<Rightarrow> string" where
  "api_url per_page page =
     ''https://api.coingecko.com/api/v3/coins/markets?vs_currency=usd&order=market_cap_desc&per_page=''
       @ show_nat per_page @ ''&page='' @ show_nat page @ ''&sparkline=false''"

definition web_url :: "nat \<Rightarrow> string" where
  "web_url page = ''https://www.coingecko.com/en?page='' @ show_nat page"

definition py_range :: "nat \<Rightarrow> nat list" where
  "py_range n = [0..<n]"

text \<open>
  The retry loop \<open>for attempt in range(3)\<close>: the result is the payload (\<open>None\<close> if the
  loop ends without a request, as the initial \<open>payload = None\<close> says), or the exception
  that leaves the loop: a caught one on the last attempt, any other one at once.  The delay
  \<open>1.5 * (attempt + 1)\<close> seconds is \<open>1500 * (attempt + 1)\<close> milliseconds.
\<close>

fun request_with_retry ::
  "string \<Rightarrow> nat list \<Rightarrow> world \<Rightarrow> (error + payload option) \<times> world" where
  "request_with_retry url [] w = (Inr None, w)"
| "request_with_retry url (attempt # attempts) w =
     (case request_text url w of
        (Inr p, w') \<Rightarrow> (Inr (Some p), w')
      | (Inl e, w') \<Rightarrow>
          if e \<noteq> NetworkError then (Inl e, w')
          else if attempt = 2 then (Inl e, w')
          else request_with_retry url attempts (sleep (1500 * (attempt + 1)) w'))"

definition json_get :: "api_row \<Rightarrow> string \<Rightarrow> jval \<Rightarrow> jval" where
  "json_get row k dflt = (case map_of row k of None \<Rightarrow> dflt | Some v \<Rightarrow> v)"

text \<open>
  The local \<open>symbol\<close>, the local \<open>rank\<close> (\<open>row.get("market_cap_rank")\<close>, \<open>None\<close> when the key
  is absent) and the dictionary stored for a record of the listing endpoint.
\<close>

definition api_symbol :: "api_row \<Rightarrow> string" where
  "api_symbol row = strip (lower (py_str (json_get row ''symbol'' (JStr ''''))))"

definition api_rank :: "api_row \<Rightarrow> jval" where
  "api_rank row = json_get row ''market_cap_rank'' JNull"

definition api_coin :: "api_row \<Rightarrow> ranked_coin" where
  "api_coin row =
     \<lparr>coin_id = py_str (json_get row ''id'' (JStr '''')),
      coin_name = py_str (json_get row ''name'' (JStr '''')),
      coin_symbol = api_symbol row,
      coin_rank = py_str (api_rank row)\<rparr>"

definition add_api_row :: "api_row \<Rightarrow> ranking \<Rightarrow> ranking" where
  "add_api_row row symbol_to_coin =
     (if api_symbol row = [] \<or> api_symbol row \<in> fst ` set symbol_to_coin then symbol_to_coin
      else if api_rank row = JNull then symbol_to_coin
      else symbol_to_coin @ [(api_symbol row, api_coin row)])"

fun api_pages :: "nat \<Rightarrow> nat list \<Rightarrow> ranking \<Rightarrow> world \<Rightarrow> (error + ranking) \<times> world" where
  "api_pages per_page [] symbol_to_coin w = (Inr symbol_to_coin, w)"
| "api_pages per_page (page # pages) symbol_to_coin w =
     (case request_with_retry (api_url per_page page) (py_range 3) w of
        (Inl e, w') \<Rightarrow> (Inl e, w')
      | (Inr None, w') \<Rightarrow> (Inl TypeError, w')
      | (Inr (Some p), w') \<Rightarrow>
          (case json_loads p of
             JsonError \<Rightarrow> (Inl DecodeError, w')
           | JsonRows data \<Rightarrow>
               if data = [] then (Inr symbol_to_coin, w')
               else api_pages per_page pages (fold add_api_row data symbol_to_coin) w'))"

definition fetch_ranked_symbols :: "nat \<Rightarrow> nat \<Rightarrow> world \<Rightarrow> (error + ranking) \<times> world" where
  "fetch_ranked_symbols max_pages per_page w = api_pages per_page [1..<max_pages + 1] [] w"

text \<open>
  The local \<open>symbol\<close> and the dictionary stored for a row of a scraped page in which the
  rank and the symbol pattern both match.
\<close>

definition web_symbol :: "web_row \<Rightarrow> string" where
  "web_symbol row_html = (case symbol_match row_html of None \<Rightarrow> [] | Some alt \<Rightarrow> strip (lower alt))"

definition web_coin :: "web_row \<Rightarrow> ranked_coin" where
  "web_coin row_html =
     \<lparr>coin_id = '''',
      coin_name = (case name_text row_html of None \<Rightarrow> '''' | Some n \<Rightarrow> n),
      coin_symbol = web_symbol row_html,
      coin_rank = (case rank_match row_html of None \<Rightarrow> '''' | Some rank \<Rightarrow> rank)\<rparr>"

text \<open>One row of a scraped page; the second component counts \<open>page_added\<close>.\<close>

definition add_web_row :: "web_row \<Rightarrow> ranking \<times> nat \<Rightarrow> ranking \<times> nat" where
  "add_web_row row_html acc =
     (case acc of (symbol_to_coin, page_added) \<Rightarrow>
        if rank_match row_html = None \<or> symbol_match row_html = None then acc
        else if web_symbol row_html = [] \<or> web_symbol row_html \<in> fst ` set symbol_to_coin then acc
        else (symbol_to_coin @ [(web_symbol row_html, web_coin row_html)], page_added + 1))"

fun web_pages :: "nat list \<Rightarrow> ranking \<Rightarrow> world \<Rightarrow> (error + ranking) \<times> world" where
  "web_pages [] symbol_to_coin w = (Inr symbol_to_coin, w)"
| "web_pages (page # pages) symbol_to_coin w =
     (case request_text (web_url page) w of
        (Inl e, w') \<Rightarrow>
          if e = NetworkError then web_pages pages symbol_to_coin w' else (Inl e, w')
      | (Inr html, w') \<Rightarrow>
          if findall_rows html = [] then web_pages pages symbol_to_coin w'
          else
            (case fold add_web_row (findall_rows html) (symbol_to_coin, 0) of
               (symbol_to_coin', page_added) \<Rightarrow>
                 if page_added = 0 then (Inr symbol_to_coin', w')
                 else web_pages pages symbol_to_coin' w'))"

definition fetch_ranked_symbols_from_web :: "nat \<Rightarrow> world \<Rightarrow> (error + ranking) \<times> world" where
  "fetch_ranked_symbols_from_web max_pages w = web_pages [1..<max_pages + 1] [] w"

section \<open>The run\<close>

text \<open>
  \<open>main\<close> after the ranking map is chosen: the emptiness test, the merge, and the written
  table with the list of unmatched files that is printed.  An exception of the chosen
  adapter that \<open>main\<close> does not catch ends the run.
\<close>

definition finish ::
  "asset_file list \<Rightarrow> (error + ranking) \<times> world
     \<Rightarrow> (error + string list \<times> dict list \<times> string list) \<times> world" where
  "finish input_files mw =
     (case mw of
        (Inl e, w) \<Rightarrow> (Inl e, w)
      | (Inr symbol_to_coin, w) \<Rightarrow>
          if symbol_to_coin = [] then (Inl RankingUnavailable, w)
          else (build_merged_rows input_files symbol_to_coin, w))"

definition main ::
  "asset_file list \<Rightarrow> world \<Rightarrow> (error + string list \<times> dict list \<times> string list) \<times> world" where
  "main raw_dir w =
     (let input_files = list_input_files raw_dir
      in if input_files = [] then (Inl NoInputFiles, w)
         else
           (case fetch_ranked_symbols 10 250 w of
              (Inl e, w') \<Rightarrow>
                if e = NetworkError
                then finish input_files (fetch_ranked_symbols_from_web 10 w')
                else (Inl e, w')
            | (Inr symbol_to_coin, w') \<Rightarrow> finish input_files (Inr symbol_to_coin, w')))"
section \<open>The ranking snapshot cleaner\<close>

text \<open>
  A data frame is its column names and its rows; a cell is missing (\<open>NaN\<close>, or \<open>NaT\<close> in
  a column of timestamps), a text, or a timestamp.  The timestamp parser of pandas is a
  parameter \<open>parse\<close>: it gives the instant a text denotes, as an integer, or \<open>None\<close> where
  \<open>pd.to_datetime\<close> raises.
\<close>

datatype cell = NaN | Text string | Stamp int

type_synonym frame_row = "(string \<times> cell) list"

record frame =
  columns :: "string list"
  records :: "frame_row list"

definition cell_of :: "frame_row \<Rightarrow> string \<Rightarrow> cell" where
  "cell_of r k = (case map_of r k of None \<Rightarrow> NaN | Some c \<Rightarrow> c)"

definition dropna :: "string list \<Rightarrow> frame \<Rightarrow> error + frame" where
  "dropna subset_cols df =
     (if \<not> set subset_cols \<subseteq> set (columns df) then Inl KeyError
      else Inr (df\<lparr>records := filter (\<lambda>r. \<forall>k \<in> set subset_cols. cell_of r k \<noteq> NaN) (records df)\<rparr>))"

text \<open>\<open>s.replace(' UTC', '')\<close>: every occurrence is removed, scanning from the left.\<close>

fun replace_utc :: "string \<Rightarrow> string" where
  "replace_utc [] = []"
| "replace_utc (c # cs) =
     (if prefix '' UTC'' (c # cs) then replace_utc (drop 3 cs) else c # replace_utc cs)"

text \<open>
  \<open>pd.to_datetime(col.str.replace(' UTC', ''))\<close> on one cell: a missing or non-text cell
  becomes \<open>NaT\<close>, a text is parsed.
\<close>

definition to_datetime_cell :: "(string \<Rightarrow> int option) \<Rightarrow> cell \<Rightarrow> error + cell" where
  "to_datetime_cell parse c =
     (case c of
        Text s \<Rightarrow> (case parse (replace_utc s) of None \<Rightarrow> Inl ValueError | Some t \<Rightarrow> Inr (Stamp t))
      | _ \<Rightarrow> Inr NaN)"

fun convert_snapped_at :: "(string \<Rightarrow> int option) \<Rightarrow> frame_row list \<Rightarrow> error + frame_row list" where
  "convert_snapped_at parse [] = Inr []"
| "convert_snapped_at parse (r # rs) =
     (case to_datetime_cell parse (cell_of r ''snapped_at'') of
        Inl e \<Rightarrow> Inl e
      | Inr c \<Rightarrow>
          (case convert_snapped_at parse rs of
             Inl e \<Rightarrow> Inl e
           | Inr rs' \<Rightarrow> Inr (AList.update ''snapped_at'' c r # rs')))"

definition on_or_after :: "int \<Rightarrow> frame_row \<Rightarrow> bool" where
  "on_or_after cutoff_date r =
     (case cell_of r ''snapped_at'' of Stamp t \<Rightarrow> cutoff_date \<le> t | _ \<Rightarrow> False)"

definition clean_coingecko_data :: "(string \<Rightarrow> int option) \<Rightarrow> frame \<Rightarrow> error + frame" where
  "clean_coingecko_data parse df =
     (case dropna [''price'', ''market_cap'', ''total_volume''] df of
        Inl e \<Rightarrow> Inl e
      | Inr df_clean \<Rightarrow>
          if ''snapped_at'' \<notin> set (columns df_clean) then Inl KeyError
          else
            (case convert_snapped_at parse (records df_clean) of
               Inl e \<Rightarrow> Inl e
             | Inr converted \<Rightarrow>
                 (case parse ''2020-02-19'' of
                    None \<Rightarrow> Inl ValueError
                  | Some cutoff_date \<Rightarrow>
                      Inr (df_clean\<lparr>records := filter (on_or_after cutoff_date) converted\<rparr>))))"

section \<open>Example inputs\<close>

text \<open>Small concrete files, pages and worlds on which the theorems below are instantiated.\<close>

definition btc_file :: asset_file where
  "btc_file =
     \<lparr>name = ''btc-usd-max.csv'',
      csv_lines = [[''snapped_at'', ''price''], [''2021-01-02'', ''2''], [''2021-01-01'', ''1'']]\<rparr>"

definition xrp_file :: asset_file where
  "xrp_file =
     \<lparr>name = ''xrp-usd-max.csv'',
      csv_lines = [[''snapped_at'', ''price''], [''2020-05-05'', ''3'']]\<rparr>"

definition notes_file :: asset_file where
  "notes_file = \<lparr>name = ''notes.txt'', csv_lines = [[''a'']]\<rparr>"

text \<open>A file whose first line is blank, a file with a short line, and files with other headers.\<close>

definition blank_first_file :: asset_file where
  "blank_first_file =
     \<lparr>name = ''ada-usd-max.csv'', csv_lines = [[], [''2020-01-01'', ''5'']]\<rparr>"

definition short_line_file :: asset_file where
  "short_line_file =
     \<lparr>name = ''sol-usd-max.csv'', csv_lines = [[''snapped_at'', ''price''], [''2021-01-01'']]\<rparr>"

definition ltc_file :: asset_file where
  "ltc_file =
     \<lparr>name = ''ltc-usd-max.csv'', csv_lines = [[''source_file''], [''elsewhere'']]\<rparr>"

definition eth_file :: asset_file where
  "eth_file =
     \<lparr>name = ''eth-usd-max.csv'',
      csv_lines = [[''snapped_at'', ''total_volume''], [''2021-03-03'', ''9'']]\<rparr>"

definition upper_btc_file :: asset_file where
  "upper_btc_file =
     \<lparr>name = ''BTC-usd-max.csv'',
      csv_lines = [[''snapped_at'', ''price''], [''2021-01-01'', ''10'']]\<rparr>"

definition ranked_btc_file :: asset_file where
  "ranked_btc_file = \<lparr>name = ''btc-usd-max.csv'', csv_lines = [[''coin_rank''], [''5'']]\<rparr>"

definition ranked_xrp_file :: asset_file where
  "ranked_xrp_file = \<lparr>name = ''xrp-usd-max.csv'', csv_lines = [[''coin_rank''], [''0'']]\<rparr>"

definition btc_coin :: ranked_coin where
  "btc_coin =
     \<lparr>coin_id = ''bitcoin'', coin_name = ''Bitcoin'', coin_symbol = ''btc'', coin_rank = ''1''\<rparr>"

definition eth_coin :: ranked_coin where
  "eth_coin =
     \<lparr>coin_id = ''ethereum'', coin_name = ''Ethereum'', coin_symbol = ''eth'', coin_rank = ''2''\<rparr>"

definition late_coin :: ranked_coin where
  "late_coin =
     \<lparr>coin_id = ''bitcoin'', coin_name = ''Bitcoin'', coin_symbol = ''btc'', coin_rank = ''1000000''\<rparr>"

definition btc_coin_web :: ranked_coin where
  "btc_coin_web =
     \<lparr>coin_id = '''', coin_name = ''Bitcoin'', coin_symbol = ''btc'', coin_rank = ''1''\<rparr>"

definition ranking_example :: ranking where
  "ranking_example = [(''btc'', btc_coin)]"

definition btc_row_1 :: dict where
  "btc_row_1 =
     [(''coin_rank'', Some ''1''), (''coin_id'', Some ''bitcoin''), (''coin_name'', Some ''Bitcoin''),
      (''coin_symbol'', Some ''btc''), (''source_file'', Some ''btc-usd-max.csv''),
      (''snapped_at'', Some ''2021-01-01''), (''price'', Some ''1'')]"

definition btc_row_2 :: dict where
  "btc_row_2 =
     [(''coin_rank'', Some ''1''), (''coin_id'', Some ''bitcoin''), (''coin_name'', Some ''Bitcoin''),
      (''coin_symbol'', Some ''btc''), (''source_file'', Some ''btc-usd-max.csv''),
      (''snapped_at'', Some ''2021-01-02''), (''price'', Some ''2'')]"

definition xrp_row :: dict where
  "xrp_row =
     [(''coin_rank'', Some ''999999''), (''coin_id'', Some ''''), (''coin_name'', Some ''''),
      (''coin_symbol'', Some ''xrp''), (''source_file'', Some ''xrp-usd-max.csv''),
      (''snapped_at'', Some ''2020-05-05''), (''price'', Some ''3'')]"

definition upper_btc_row :: dict where
  "upper_btc_row =
     [(''coin_rank'', Some ''1''), (''coin_id'', Some ''bitcoin''), (''coin_name'', Some ''Bitcoin''),
      (''coin_symbol'', Some ''btc''), (''source_file'', Some ''BTC-usd-max.csv''),
      (''snapped_at'', Some ''2021-01-01''), (''price'', Some ''10'')]"

definition example_headers :: "string list" where
  "example_headers =
     [''coin_rank'', ''coin_id'', ''coin_name'', ''coin_symbol'', ''source_file'',
      ''snapped_at'', ''price'']"

definition btc_web_row :: web_row where
  "btc_web_row =
     \<lparr>rank_match = Some ''1'', symbol_match = Some ''BTC'', name_text = Some ''Bitcoin''\<rparr>"

definition web_page :: payload where
  "web_page = \<lparr>json_loads = JsonError, findall_rows = [btc_web_row]\<rparr>"

definition empty_page :: payload where
  "empty_page = \<lparr>json_loads = JsonRows [], findall_rows = []\<rparr>"

definition world0 :: "reply list \<Rightarrow> world" where
  "world0 rs = \<lparr>pending = rs, requested = [], slept = []\<rparr>"

definition btc_record :: api_row where
  "btc_record =
     [(''id'', JStr ''bitcoin''), (''symbol'', JStr ''BTC''), (''name'', JStr ''Bitcoin''),
      (''market_cap_rank'', JInt 1)]"

definition bitclone_record :: api_row where
  "bitclone_record =
     [(''id'', JStr ''bitclone''), (''symbol'', JStr '' btc''), (''name'', JStr ''Bitclone''),
      (''market_cap_rank'', JInt 7)]"

definition eth_record :: api_row where
  "eth_record =
     [(''id'', JStr ''ethereum''), (''symbol'', JStr ''eth''), (''name'', JStr ''Ethereum''),
      (''market_cap_rank'', JInt 2)]"

definition api_rows :: "api_row list" where
  "api_rows = [btc_record, bitclone_record, eth_record]"

definition api_page :: payload where
  "api_page = \<lparr>json_loads = JsonRows api_rows, findall_rows = []\<rparr>"

text \<open>A page whose first record for \<open>btc\<close> has no rank, and whose only record for \<open>doge\<close> has none.\<close>

definition ghost_record :: api_row where
  "ghost_record =
     [(''id'', JStr ''ghost''), (''symbol'', JStr ''btc''), (''name'', JStr ''Ghost''),
      (''market_cap_rank'', JNull)]"

definition plain_btc_record :: api_row where
  "plain_btc_record =
     [(''id'', JStr ''bitcoin''), (''symbol'', JStr ''btc''), (''name'', JStr ''Bitcoin''),
      (''market_cap_rank'', JInt 1)]"

definition doge_record :: api_row where
  "doge_record =
     [(''id'', JStr ''dogecoin''), (''symbol'', JStr ''doge''), (''name'', JStr ''Dogecoin'')]"

definition ghost_rows :: "api_row list" where
  "ghost_rows = [ghost_record, plain_btc_record, doge_record]"

definition ghost_page :: payload where
  "ghost_page = \<lparr>json_loads = JsonRows ghost_rows, findall_rows = []\<rparr>"

text \<open>A timestamp parser on three texts (days since the epoch), and a small snapshot.\<close>

definition example_parse :: "string \<Rightarrow> int option" where
  "example_parse s =
     (if s = ''2020-02-19'' then Some 18311
      else if s = ''2019-06-01 00:00:00'' then Some 18048
      else if s = ''2021-01-01 00:00:00'' then Some 18628
      else None)"

definition example_frame :: frame where
  "example_frame =
     \<lparr>columns = [''snapped_at'', ''price'', ''market_cap'', ''total_volume''],
      records =
        [[(''snapped_at'', Text ''2019-06-01 00:00:00 UTC''), (''price'', Text ''1''),
          (''market_cap'', Text ''10''), (''total_volume'', Text ''5'')],
         [(''snapped_at'', Text ''2021-01-01 00:00:00 UTC''), (''price'', NaN),
          (''market_cap'', Text ''20''), (''total_volume'', Text ''6'')],
         [(''snapped_at'', Text ''2021-01-01 00:00:00 UTC''), (''price'', Text ''3''),
          (''market_cap'', Text ''30''), (''total_volume'', Text ''7'')]]\<rparr>"

definition example_cleaned :: frame where
  "example_cleaned =
     \<lparr>columns = [''snapped_at'', ''price'', ''market_cap'', ''total_volume''],
      records =
        [[(''snapped_at'', Stamp 18628), (''price'', Text ''3''),
          (''market_cap'', Text ''30''), (''total_volume'', Text ''7'')]]\<rparr>"

section \<open>Notions used in the statements and proofs\<close>

text \<open>An entry of the ranking map whose key is a normalised symbol and agrees with the record.\<close>

definition key_ok :: "string \<times> ranked_coin \<Rightarrow> bool" where
  "key_ok e \<longleftrightarrow>
     fst e \<noteq> [] \<and> lower (fst e) = fst e \<and> strip (fst e) = fst e \<and> coin_symbol (snd e) = fst e"

text \<open>
  The second map is the first one with entries appended, and it keeps the keys distinct
  and normalised if they were.
\<close>

definition extends_map :: "ranking \<Rightarrow> ranking \<Rightarrow> bool" where
  "extends_map m m' \<longleftrightarrow>
     prefix m m' \<and> (distinct (map fst m) \<longrightarrow> distinct (map fst m'))
     \<and> (list_all key_ok m \<longrightarrow> list_all key_ok m')"

text \<open>
  A record that an adapter stores when its symbol is not yet a key: the symbol is not empty
  and, in the primary path, the rank is not \<open>None\<close>; in the fallback path, the rank and the
  symbol pattern both match.
\<close>

definition api_usable :: "api_row \<Rightarrow> bool" where
  "api_usable row \<longleftrightarrow> api_symbol row \<noteq> [] \<and> api_rank row \<noteq> JNull"

definition web_usable :: "web_row \<Rightarrow> bool" where
  "web_usable row_html \<longleftrightarrow>
     rank_match row_html \<noteq> None \<and> symbol_match row_html \<noteq> None \<and> web_symbol row_html \<noteq> []"

text \<open>
  The replies the network gave between two states of the world, and the records an adapter
  reads in a reply: the array of a body in the primary path, the table rows of a body in
  the fallback path, nothing in a failure.
\<close>

definition consumed :: "world \<Rightarrow> world \<Rightarrow> reply list" where
  "consumed w w' = take (length (pending w) - length (pending w')) (pending w)"

definition api_rows_of :: "reply \<Rightarrow> api_row list" where
  "api_rows_of r =
     (case r of Body p \<Rightarrow> (case json_loads p of JsonRows data \<Rightarrow> data | JsonError \<Rightarrow> []) | _ \<Rightarrow> [])"

definition web_rows_of :: "reply \<Rightarrow> web_row list" where
  "web_rows_of r = (case r of Body p \<Rightarrow> findall_rows p | _ \<Rightarrow> [])"

text \<open>
  The base headers the loop has after a list of files: the first line of the first file
  whose first line is not empty (the test \<open>if not base_headers\<close> is repeated for every file
  until then).  For the files read so far, these are the base headers in effect.
\<close>

definition first_headers :: "asset_file list \<Rightarrow> string list" where
  "first_headers files =
     (case filter (\<lambda>f. fieldnames f \<noteq> []) files of [] \<Rightarrow> [] | f # _ \<Rightarrow> fieldnames f)"

text \<open>
  The base headers in effect while the file at position \<open>i\<close> is read (empty as long as no
  file with a non-empty first line has been opened), and the merged rows that file gives.
\<close>

definition headers_in_effect :: "asset_file list \<Rightarrow> nat \<Rightarrow> string list" where
  "headers_in_effect files i = first_headers (take (Suc i) files)"

definition rows_from :: "ranking \<Rightarrow> asset_file list \<Rightarrow> nat \<Rightarrow> dict list" where
  "rows_from symbol_to_coin files i =
     map (merged_row (coin_meta_for symbol_to_coin (files ! i)) (name (files ! i))
            (headers_in_effect files i))
       (reader_rows (files ! i))"

text \<open>A file whose symbol has no entry in the ranking map.\<close>

definition unmatched :: "ranking \<Rightarrow> asset_file \<Rightarrow> bool" where
  "unmatched symbol_to_coin f \<longleftrightarrow> map_of symbol_to_coin (parse_symbol_from_filename f) = None"

text \<open>The sort key of a row whose key can be computed.\<close>

definition the_key :: "dict \<Rightarrow> sort_key" where
  "the_key item = projr (sort_key_of item)"

text \<open>A row of the snapshot that has a value in each of the three numeric columns.\<close>

definition complete_row :: "frame_row \<Rightarrow> bool" where
  "complete_row r \<longleftrightarrow>
     cell_of r ''price'' \<noteq> NaN \<and> cell_of r ''market_cap'' \<noteq> NaN \<and> cell_of r ''total_volume'' \<noteq> NaN"

text \<open>A row with its \<open>snapped_at\<close> cell replaced by the parsed timestamp.\<close>

definition stamped :: "(string \<Rightarrow> int option) \<Rightarrow> frame_row \<Rightarrow> frame_row" where
  "stamped parse r =
     AList.update ''snapped_at'' (projr (to_datetime_cell parse (cell_of r ''snapped_at''))) r"
section \<open>Evaluating the string functions and the examples\<close>

lemmas str_eval =
  lower_def lower_char_def strip_def is_space_def is_int_space_def is_digit_def digit_val_def
  digit_char_def less_eq_char_def less_char_def char_of_def bit_Suc_0_iff show_nat.simps
  show_int_def py_int_def unsigned_int_def dict_get_def suffix_to_prefix

lemma list_btc: "list_input_files [btc_file] = [btc_file]"
  by (simp add: list_input_files_def btc_file_def suffix_to_prefix)

lemma lower_BTC: "strip (lower ''BTC'') = ''btc''"
  by (simp add: str_eval)

lemma web_symbol_btc: "web_symbol btc_web_row = ''btc''"
  by (simp add: web_symbol_def btc_web_row_def lower_BTC)

lemma web_coin_btc: "web_coin btc_web_row = btc_coin_web"
  by (simp add: web_coin_def btc_web_row_def btc_coin_web_def web_symbol_btc[unfolded btc_web_row_def])

lemma add_btc: "add_web_row btc_web_row ([], n) = ([(''btc'', btc_coin_web)], Suc n)"
  by (simp add: add_web_row_def web_symbol_btc web_coin_btc) (simp add: btc_web_row_def)

lemma add_btc_again: "add_web_row btc_web_row ([(''btc'', c)], n) = ([(''btc'', c)], n)"
  by (simp add: add_web_row_def web_symbol_btc)

lemma pages10: "[1..<10 + 1] = (1::nat) # [2..<11]"
  by (simp add: upt_rec)

lemma pages10_all: "[1..<10 + 1] = [1, 2, 3, 4, 5, 6, 7, 8, 9, 10::nat]"
  by (simp add: upt_rec)

lemma range3: "py_range 3 = [0, 1, 2]"
  by (simp add: py_range_def upt_rec)

lemma web_pages_exhausted:
  "web_pages pages m \<lparr>pending = [], requested = rq, slept = sl\<rparr> =
     (Inr m, \<lparr>pending = [], requested = rq @ map web_url pages, slept = sl\<rparr>)"
  by (induction pages arbitrary: rq) (simp_all add: request_text_def)

section \<open>Requests, retries and the choice of the ranking source\<close>

lemma request_text_effect:
  assumes "request_text url w = (r, w')"
  shows "requested w' = requested w @ [url]" and "slept w' = slept w"
    and "pending w' = tl (pending w)"
    and "isl r \<Longrightarrow> r = Inl NetworkError \<or> r = Inl UncaughtIOError"
  using assms by (auto simp: request_text_def split: list.splits reply.splits)

text \<open>
  The retry loop, read off the replies: a body after at most two caught failures is
  returned, with one request per reply and a delay of 1.5 s times the number of the failed
  attempt after each failure; three caught failures in a row leave the loop with the error.
\<close>

lemma retry_success:
  assumes "k \<le> 2" and "pending w = replicate k Failure @ Body p # rs"
  shows "request_with_retry url (py_range 3) w =
     (Inr (Some p),
      \<lparr>pending = rs, requested = requested w @ replicate (Suc k) url,
        slept = slept w @ map (\<lambda>attempt. 1500 * (attempt + 1)) [0..<k]\<rparr>)"
proof -
  from assms(1) consider "k = 0" | "k = 1" | "k = 2" by linarith
  then show ?thesis
  proof cases
    case 1
    then show ?thesis using assms(2) by (simp add: range3 request_text_def)
  next
    case 2
    then show ?thesis using assms(2) by (simp add: range3 request_text_def sleep_def)
  next
    case 3
    then show ?thesis using assms(2)
      by (simp add: range3 request_text_def sleep_def numeral_2_eq_2 upt_rec)
  qed
qed

lemma retry_fail:
  assumes "pending w = Failure # Failure # Failure # rs"
  shows "request_with_retry url (py_range 3) w =
     (Inl NetworkError,
      \<lparr>pending = rs, requested = requested w @ replicate 3 url, slept = slept w @ [1500, 3000]\<rparr>)"
  using assms unfolding range3 by (simp add: request_text_def sleep_def numeral_3_eq_3)

lemma retry_result:
  assumes "request_with_retry url (py_range 3) w = (r, w')"
  shows "r \<noteq> Inr None"
    and "r = Inr (Some p) \<Longrightarrow>
           pending w = Body p # pending w' \<or> pending w = Failure # Body p # pending w'
           \<or> pending w = Failure # Failure # Body p # pending w'"
    and "r = Inl e \<Longrightarrow> e = NetworkError \<or> e = UncaughtIOError"
  using assms
  by (auto simp: range3 request_text_def sleep_def split: list.splits reply.splits if_splits)
lemma world_eq: "\<lparr>pending = pending w, requested = requested w, slept = slept w\<rparr> = w"
  by simp

lemma api_pages_abandon:
  assumes "pending w = Failure # Failure # Failure # rs"
  shows "api_pages per_page (page # pages) m w =
     (Inl NetworkError,
      \<lparr>pending = rs, requested = requested w @ replicate 3 (api_url per_page page),
        slept = slept w @ [1500, 3000]\<rparr>)"
  by (simp only: api_pages.simps retry_fail[OF assms] prod.case sum.case)

lemma api_pages_prefix:
  assumes "length pages1 = length ps"
    and "\<forall>p \<in> set ps. \<exists>data. json_loads p = JsonRows data \<and> data \<noteq> []"
    and "pending w = map Body ps @ rest"
  shows "api_pages per_page (pages1 @ pages2) m w =
     api_pages per_page pages2 (fold add_api_row (concat (map (\<lambda>p. api_rows_of (Body p)) ps)) m)
       \<lparr>pending = rest, requested = requested w @ map (api_url per_page) pages1, slept = slept w\<rparr>"
  using assms
proof (induction ps arbitrary: pages1 m w)
  case Nil
  then show ?case by (cases w) simp
next
  case (Cons p ps)
  then obtain page pages1' where p1: "pages1 = page # pages1'" "length pages1' = length ps"
    by (cases pages1) auto
  from Cons.prems(2) obtain data where d: "json_loads p = JsonRows data" "data \<noteq> []" by auto
  have pw: "pending w = replicate 0 Failure @ Body p # (map Body ps @ rest)"
    using Cons.prems(3) by simp
  let ?w1 = "\<lparr>pending = map Body ps @ rest, requested = requested w @ [api_url per_page page],
              slept = slept w\<rparr>"
  have r: "request_with_retry (api_url per_page page) (py_range 3) w = (Inr (Some p), ?w1)"
    using retry_success[OF _ pw, of "api_url per_page page"] by simp
  have "api_pages per_page (pages1 @ pages2) m w =
      api_pages per_page (pages1' @ pages2) (fold add_api_row data m) ?w1"
    unfolding p1(1) append_Cons by (simp only: api_pages.simps r prod.case sum.case option.case)
      (simp add: d)
  also have "\<dots> = api_pages per_page pages2
       (fold add_api_row (concat (map (\<lambda>p. api_rows_of (Body p)) ps)) (fold add_api_row data m))
       \<lparr>pending = rest, requested = requested ?w1 @ map (api_url per_page) pages1', slept = slept ?w1\<rparr>"
    using Cons.prems(2) by (intro Cons.IH[OF p1(2)]) auto
  finally show ?case by (simp add: p1(1) api_rows_of_def d)
qed

lemma pages_split:
  assumes "k < 10"
  shows "[1..<10 + 1] = [1..<k + 1] @ (k + 1) # [k + 2..<11]"
proof -
  have "[1..<10 + 1] = [1..<k + 1] @ [k + 1..<11]"
    using assms upt_add_eq_append[of 1 "k + 1" "10 - k"] by simp
  also have "[k + 1..<11] = (k + 1) # [k + 2..<11]"
    using assms by (simp add: upt_conv_Cons)
  finally show ?thesis .
qed

lemma fetch_abandoned:
  assumes "length ps < 10"
    and "\<forall>p \<in> set ps. \<exists>data. json_loads p = JsonRows data \<and> data \<noteq> []"
    and "pending w = map Body ps @ Failure # Failure # Failure # rs"
  shows "fetch_ranked_symbols 10 250 w =
     (Inl NetworkError,
      \<lparr>pending = rs,
        requested = requested w @ map (api_url 250) [1..<length ps + 1]
                      @ replicate 3 (api_url 250 (length ps + 1)),
        slept = slept w @ [1500, 3000]\<rparr>)"
proof -
  have "fetch_ranked_symbols 10 250 w =
      api_pages 250 ([1..<length ps + 1] @ (length ps + 1) # [length ps + 2..<11]) [] w"
    unfolding fetch_ranked_symbols_def pages_split[OF assms(1)] ..
  also have "\<dots> = api_pages 250 ((length ps + 1) # [length ps + 2..<11])
      (fold add_api_row (concat (map (\<lambda>p. api_rows_of (Body p)) ps)) [])
      \<lparr>pending = Failure # Failure # Failure # rs,
        requested = requested w @ map (api_url 250) [1..<length ps + 1], slept = slept w\<rparr>"
    by (rule api_pages_prefix[OF _ assms(2,3)]) (auto simp: Suc_le_eq)
  also have "\<dots> = (Inl NetworkError,
      \<lparr>pending = rs,
        requested = requested w @ map (api_url 250) [1..<length ps + 1]
                      @ replicate 3 (api_url 250 (length ps + 1)),
        slept = slept w @ [1500, 3000]\<rparr>)"
    by (subst api_pages_abandon[where rs = rs]) simp_all
  finally show ?thesis .
qed





lemma api_pages_error:
  "api_pages per_page pages m w = (Inl e, w') \<Longrightarrow>
     e \<in> {NetworkError, UncaughtIOError, TypeError, DecodeError}"
proof (induction pages arbitrary: m w)
  case Nil
  then show ?case by simp
next
  case (Cons page pages)
  obtain r w1 where s: "request_with_retry (api_url per_page page) (py_range 3) w = (r, w1)"
    by (cases "request_with_retry (api_url per_page page) (py_range 3) w")
  show ?case
    using Cons.prems Cons.IH retry_result(3)[OF s]
    by (auto simp: s simp del: request_with_retry.simps
        split: sum.splits option.splits json_doc.splits if_splits)
qed

lemma web_pages_error:
  "web_pages pages m w = (Inl e, w') \<Longrightarrow> e = UncaughtIOError"
proof (induction pages arbitrary: m w)
  case Nil
  then show ?case by simp
next
  case (Cons page pages)
  obtain r w1 where s: "request_text (web_url page) w = (r, w1)"
    by (cases "request_text (web_url page) w")
  show ?case
    using Cons.prems Cons.IH request_text_effect(4)[OF s]
    by (auto simp: s split: sum.splits prod.splits if_splits)
qed

lemma keyed_error: "keyed rows = Inl e \<Longrightarrow> e \<in> {KeyError, ValueError, TypeError}"
  by (induction rows) (auto simp: sort_key_of_def split: sum.splits option.splits)

lemma build_merged_rows_error:
  "build_merged_rows files m = Inl e \<Longrightarrow> e \<in> {KeyError, ValueError, TypeError}"
  by (auto simp: build_merged_rows_def sort_rows_def
      split: prod.splits sum.splits if_splits dest: keyed_error)

lemma build_merged_rows_available [simp]:
  "build_merged_rows files m \<noteq> Inl RankingUnavailable"
  using build_merged_rows_error[of files m RankingUnavailable] by auto

text \<open>
  Claim C8.  When no file of the input directory matches the naming convention, the run
  fails with \<open>NoInputFiles\<close> and the world is returned as it was: no request has been
  issued, to the primary or to the fallback source.
\<close>

theorem no_input_files_no_network:
  assumes "\<forall>p \<in> set raw_dir. \<not> suffix ''-usd-max.csv'' (name p)"
  shows "main raw_dir w = (Inl NoInputFiles, w)"
proof -
  have "filter (\<lambda>p. suffix ''-usd-max.csv'' (name p)) raw_dir = []"
    using assms by (simp add: filter_empty_conv)
  then show ?thesis by (simp add: main_def list_input_files_def)
qed

theorem no_input_files_no_network_witness:
  "\<not> suffix ''-usd-max.csv'' (name notes_file)
   \<and> main [notes_file] (world0 [Body web_page]) = (Inl NoInputFiles, world0 [Body web_page])"
  using no_input_files_no_network [of "[notes_file]" "world0 [Body web_page]"]
  by (simp add: notes_file_def suffix_to_prefix)




text \<open>
  Claim C5 (amended).  The run fails with \<open>RankingUnavailable\<close> exactly when the map chosen
  by the failure-then-fallback policy is empty: the primary map when the primary path
  returns, and the fallback map when the primary path raises a network error.  A primary
  path that returns an empty map fails the run without the fallback being consulted.
\<close>

theorem ranking_unavailable_iff:
  assumes "list_input_files raw_dir \<noteq> []"
  shows "fst (main raw_dir w) = Inl RankingUnavailable \<longleftrightarrow>
     (case fetch_ranked_symbols 10 250 w of
        (Inr symbol_to_coin, w') \<Rightarrow> symbol_to_coin = []
      | (Inl e, w') \<Rightarrow> e = NetworkError \<and> fst (fetch_ranked_symbols_from_web 10 w') = Inr [])"
proof (cases "fetch_ranked_symbols 10 250 w")
  case (Pair r w')
  show ?thesis
  proof (cases r)
    case (Inl e)
    have e: "e \<in> {NetworkError, UncaughtIOError, TypeError, DecodeError}"
      using Pair Inl api_pages_error[of 250 "[1..<10 + 1]" "[]" w e w']
      by (simp add: fetch_ranked_symbols_def)
    obtain r2 w2 where f: "fetch_ranked_symbols_from_web 10 w' = (r2, w2)"
      by (cases "fetch_ranked_symbols_from_web 10 w'")
    have "r2 \<noteq> Inl RankingUnavailable"
      using web_pages_error[of "[1..<10 + 1]" "[]" w' RankingUnavailable w2] f
      by (auto simp: fetch_ranked_symbols_from_web_def)
    then show ?thesis using assms Pair Inl e f
      by (cases r2) (auto simp: main_def Let_def finish_def split: if_splits)
  next
    case (Inr m)
    then show ?thesis using assms Pair
      by (auto simp: main_def Let_def finish_def split: if_splits)
  qed
qed

lemma fetch3:
  "fetch_ranked_symbols 10 250 (world0 (Failure # Failure # Failure # rs)) =
     (Inl NetworkError,
      \<lparr>pending = rs, requested = [api_url 250 1, api_url 250 1, api_url 250 1],
        slept = [1500, 3000]\<rparr>)"
  using fetch_abandoned[of "[]" "world0 (Failure # Failure # Failure # rs)" rs]
  by (simp add: world0_def numeral_3_eq_3)

theorem ranking_unavailable_iff_witness:
  "list_input_files [btc_file] \<noteq> []
   \<and> fst (main [btc_file] (world0 [Failure, Failure, Failure])) = Inl RankingUnavailable"
  using ranking_unavailable_iff [of "[btc_file]" "world0 [Failure, Failure, Failure]"]
  by (simp add: list_btc fetch3 fetch_ranked_symbols_from_web_def web_pages_exhausted)

text \<open>
  Claim C5 as stated fails: the listing endpoint answers the first page with an empty
  array, so the primary path returns an empty map without raising; the run fails with
  \<open>RankingUnavailable\<close> after that single request, although the fallback path, run in the
  world the primary path leaves, yields an entry.
\<close>

theorem ranking_unavailable_without_fallback:
  "main [btc_file] (world0 [Body empty_page, Body web_page]) =
     (Inl RankingUnavailable,
      \<lparr>pending = [Body web_page], requested = [api_url 250 1], slept = []\<rparr>)
   \<and> fst (fetch_ranked_symbols_from_web 10
           \<lparr>pending = [Body web_page], requested = [api_url 250 1], slept = []\<rparr>) =
       Inr [(''btc'', btc_coin_web)]"
proof -
  have r: "request_with_retry (api_url 250 1) (py_range 3) (world0 [Body empty_page, Body web_page]) =
      (Inr (Some empty_page), \<lparr>pending = [Body web_page], requested = [api_url 250 1], slept = []\<rparr>)"
    using retry_success[of 0 "world0 [Body empty_page, Body web_page]" empty_page "[Body web_page]"
        "api_url 250 1"]
    by (simp add: world0_def)
  have p: "fetch_ranked_symbols 10 250 (world0 [Body empty_page, Body web_page]) =
      (Inr [], \<lparr>pending = [Body web_page], requested = [api_url 250 1], slept = []\<rparr>)"
    unfolding fetch_ranked_symbols_def pages10
    by (simp only: api_pages.simps r prod.case sum.case option.case) (simp add: empty_page_def)
  have m: "main [btc_file] (world0 [Body empty_page, Body web_page]) =
     (Inl RankingUnavailable,
      \<lparr>pending = [Body web_page], requested = [api_url 250 1], slept = []\<rparr>)"
    by (simp add: main_def list_btc p finish_def)
  have f: "fetch_ranked_symbols_from_web 10
           \<lparr>pending = [Body web_page], requested = [api_url 250 1], slept = []\<rparr> =
       (Inr [(''btc'', btc_coin_web)],
        \<lparr>pending = [], requested = api_url 250 1 # map web_url [1, 2, 3, 4, 5, 6, 7, 8, 9, 10],
          slept = []\<rparr>)"
    unfolding fetch_ranked_symbols_from_web_def pages10_all
    by (simp add: request_text_def web_page_def add_btc web_pages_exhausted)
  show ?thesis using m f by simp
qed

section \<open>Pagination of the fallback path\<close>

lemma add_web_row_grows:
  "add_web_row row (m, n) = (m', n') \<Longrightarrow> prefix m m' \<and> length m' + n = length m + n'"
  by (auto simp: add_web_row_def split: if_splits)

lemma fold_add_web_row_grows:
  "fold add_web_row rows (m, n) = (m', n') \<Longrightarrow> prefix m m' \<and> length m' + n = length m + n'"
proof (induction rows arbitrary: m n)
  case Nil
  then show ?case by simp
next
  case (Cons row rows)
  obtain m1 n1 where s: "add_web_row row (m, n) = (m1, n1)" by (cases "add_web_row row (m, n)")
  from Cons.prems have "fold add_web_row rows (m1, n1) = (m', n')" by (simp add: s)
  from Cons.IH[OF this] add_web_row_grows[OF s] show ?case
    by (auto intro: prefix_order.trans)
qed

text \<open>
  Claim C7 (amended).  When a page of the fallback path is fetched, contains at least one
  table row, and processing its rows leaves the ranking map as it was (zero new entries),
  the pagination ends there: the map is returned, and the only request issued is the one
  for that page.
\<close>

theorem fallback_stops_after_fruitless_page:
  assumes "request_text (web_url page) w = (Inr html, w')"
    and "findall_rows html \<noteq> []"
    and "fst (fold add_web_row (findall_rows html) (symbol_to_coin, 0)) = symbol_to_coin"
  shows "web_pages (page # pages) symbol_to_coin w = (Inr symbol_to_coin, w')
     \<and> requested w' = requested w @ [web_url page]"
proof -
  obtain m' n' where f: "fold add_web_row (findall_rows html) (symbol_to_coin, 0) = (m', n')"
    by (cases "fold add_web_row (findall_rows html) (symbol_to_coin, 0)")
  from assms(3) f have m': "m' = symbol_to_coin" by simp
  with fold_add_web_row_grows[OF f] have "n' = 0" by simp
  then have "web_pages (page # pages) symbol_to_coin w = (Inr symbol_to_coin, w')"
    using assms(1,2) f m' by simp
  moreover have "requested w' = requested w @ [web_url page]"
    using request_text_effect(1)[OF assms(1)] .
  ultimately show ?thesis by simp
qed

theorem fallback_stops_after_fruitless_page_witness:
  "request_text (web_url 1) (world0 [Body web_page, Body web_page]) =
      (Inr web_page, \<lparr>pending = [Body web_page], requested = [web_url 1], slept = []\<rparr>)
   \<and> findall_rows web_page \<noteq> []
   \<and> fst (fold add_web_row (findall_rows web_page) ([(''btc'', btc_coin_web)], 0)) =
       [(''btc'', btc_coin_web)]
   \<and> web_pages [1, 2] [(''btc'', btc_coin_web)] (world0 [Body web_page, Body web_page]) =
        (Inr [(''btc'', btc_coin_web)],
         \<lparr>pending = [Body web_page], requested = [web_url 1], slept = []\<rparr>)"
  using fallback_stops_after_fruitless_page
    [of 1 "world0 [Body web_page, Body web_page]" web_page
        "\<lparr>pending = [Body web_page], requested = [web_url 1], slept = []\<rparr>"
        "[(''btc'', btc_coin_web)]" "[2]"]
  by (simp add: request_text_def world0_def web_page_def add_btc_again)

text \<open>
  Claim C7 as stated fails for a page without any table row: the first page has no row
  and so yields no entry, yet the second page is fetched (and adds an entry), and so are
  all the pages after it.
\<close>

theorem fallback_continues_after_rowless_page:
  "findall_rows empty_page = []
   \<and> fetch_ranked_symbols_from_web 10 (world0 [Body empty_page, Body web_page]) =
       (Inr [(''btc'', btc_coin_web)],
        \<lparr>pending = [],
          requested = [web_url 1, web_url 2, web_url 3, web_url 4, web_url 5, web_url 6,
                       web_url 7, web_url 8, web_url 9, web_url 10],
          slept = []\<rparr>)"
  unfolding fetch_ranked_symbols_from_web_def pages10_all
  by (simp add: request_text_def world0_def empty_page_def web_page_def add_btc web_pages_exhausted)
section \<open>The ranking map built by the adapters\<close>

lemma lower_char_idem: "lower_char (lower_char c) = lower_char c"
  by (auto simp: lower_char_def less_eq_char_def)

lemma lower_idem: "lower (lower s) = lower s"
  by (simp add: lower_def lower_char_idem)

lemma dropWhile_fix: "xs = [] \<or> \<not> P (hd xs) \<Longrightarrow> dropWhile P xs = xs"
  by (cases xs) auto

lemma strip_ends:
  "strip s = [] \<or> (\<not> is_space (hd (strip s)) \<and> \<not> is_space (last (strip s)))"
  unfolding strip_def
  by (metis (no_types, lifting) Nil_is_rev_conv dropWhile_eq_Nil_conv
    dropWhile_fix dropWhile_last hd_dropWhile last_rev rev_rev_ident)

lemma strip_idem: "strip (strip s) = strip s"
proof -
  let ?t = "strip s"
  have a: "dropWhile is_space ?t = ?t" using strip_ends[of s] by (intro dropWhile_fix) auto
  have "rev ?t = [] \<or> \<not> is_space (hd (rev ?t))"
    using strip_ends[of s] by (auto simp: hd_rev)
  then have b: "dropWhile is_space (rev ?t) = rev ?t" by (rule dropWhile_fix)
  show ?thesis by (subst (1) strip_def) (simp add: a b)
qed

lemma set_strip: "set (strip s) \<subseteq> set s"
proof
  fix c assume "c \<in> set (strip s)"
  then have "c \<in> set (dropWhile is_space (rev (dropWhile is_space s)))" by (simp add: strip_def)
  then have "c \<in> set (rev (dropWhile is_space s))" by (rule set_dropWhileD)
  then have "c \<in> set (dropWhile is_space s)" by simp
  then show "c \<in> set s" by (rule set_dropWhileD)
qed

lemma lower_strip_lower: "lower (strip (lower s)) = strip (lower s)"
proof -
  have "\<forall>c \<in> set (lower s). lower_char c = c" by (auto simp: lower_def lower_char_idem)
  then have "\<forall>c \<in> set (strip (lower s)). lower_char c = c" using set_strip by blast
  then show ?thesis unfolding lower_def[of "strip _"] by (simp add: map_idI)
qed

lemma key_ok_new: "strip (lower x) \<noteq> [] \<Longrightarrow> coin_symbol c = strip (lower x) \<Longrightarrow> key_ok (strip (lower x), c)"
  by (simp add: key_ok_def lower_strip_lower strip_idem)

lemma key_ok_api: "api_symbol row \<noteq> [] \<Longrightarrow> key_ok (api_symbol row, api_coin row)"
  unfolding api_symbol_def by (rule key_ok_new) (simp_all add: api_coin_def api_symbol_def)

lemma key_ok_web: "web_symbol row \<noteq> [] \<Longrightarrow> key_ok (web_symbol row, web_coin row)"
proof (cases "symbol_match row")
  case None
  then show "web_symbol row \<noteq> [] \<Longrightarrow> ?thesis" by (simp add: web_symbol_def)
next
  case (Some alt)
  then have w: "web_symbol row = strip (lower alt)" by (simp add: web_symbol_def)
  show "web_symbol row \<noteq> [] \<Longrightarrow> ?thesis"
    unfolding w by (rule key_ok_new) (simp_all add: web_coin_def w)
qed

lemma add_api_row_cases:
  "add_api_row row m = m \<or>
   (add_api_row row m = m @ [(api_symbol row, api_coin row)]
      \<and> api_symbol row \<noteq> [] \<and> api_symbol row \<notin> fst ` set m)"
  by (auto simp: add_api_row_def)

lemma add_web_row_cases:
  "add_web_row row (m, n) = (m, n) \<or>
   (add_web_row row (m, n) = (m @ [(web_symbol row, web_coin row)], n + 1)
      \<and> web_symbol row \<noteq> [] \<and> web_symbol row \<notin> fst ` set m)"
  by (auto simp: add_web_row_def)

lemma extends_refl: "extends_map m m" by (simp add: extends_map_def)

lemma extends_trans: "extends_map a b \<Longrightarrow> extends_map b c \<Longrightarrow> extends_map a c"
  by (auto simp: extends_map_def intro: prefix_order.trans)

lemma extends_add_api_row: "extends_map m (add_api_row row m)"
  using add_api_row_cases[of row m] by (auto simp: extends_map_def key_ok_api)

lemma extends_add_web_row: "extends_map m (fst (add_web_row row (m, n)))"
  using add_web_row_cases[of row m n] by (auto simp: extends_map_def key_ok_web)

lemma extends_fold_api: "extends_map m (fold add_api_row data m)"
  by (induction data arbitrary: m) (auto intro: extends_refl extends_trans extends_add_api_row)

lemma extends_fold_web: "extends_map m (fst (fold add_web_row rows (m, n)))"
proof (induction rows arbitrary: m n)
  case Nil
  then show ?case by (simp add: extends_refl)
next
  case (Cons row rows)
  obtain m1 n1 where s: "add_web_row row (m, n) = (m1, n1)" by (cases "add_web_row row (m, n)")
  have "extends_map m m1" using extends_add_web_row[of m row n] s by simp
  moreover have "extends_map m1 (fst (fold add_web_row rows (m1, n1)))" by (rule Cons.IH)
  ultimately show ?case using s by (auto intro: extends_trans)
qed

lemma extends_api_pages: "api_pages per_page pages m w = (Inr m', w') \<Longrightarrow> extends_map m m'"
proof (induction pages arbitrary: m w)
  case Nil
  then show ?case by (simp add: extends_refl)
next
  case (Cons page pages)
  then show ?case
    by (auto simp del: request_with_retry.simps
        split: prod.splits sum.splits option.splits json_doc.splits if_splits
        intro: extends_refl extends_trans[OF extends_fold_api])
qed

lemma extends_web_pages: "web_pages pages m w = (Inr m', w') \<Longrightarrow> extends_map m m'"
proof (induction pages arbitrary: m w)
  case Nil
  then show ?case by (simp add: extends_refl)
next
  case (Cons page pages)
  obtain r w1 where s: "request_text (web_url page) w = (r, w1)"
    by (cases "request_text (web_url page) w")
  show ?case
  proof (cases r)
    case (Inl e)
    then show ?thesis using Cons.prems s Cons.IH by (auto split: if_splits)
  next
    case (Inr html)
    show ?thesis
    proof (cases "findall_rows html = []")
      case True
      then show ?thesis using Cons.prems s Inr Cons.IH by simp
    next
      case False
      obtain m1 n1 where f: "fold add_web_row (findall_rows html) (m, 0) = (m1, n1)"
        by (cases "fold add_web_row (findall_rows html) (m, 0)")
      have i: "extends_map m m1" using extends_fold_web[of m "findall_rows html" 0] f by simp
      show ?thesis using Cons.prems s Inr False f i Cons.IH[of m1 w1]
        by (auto intro: extends_trans split: if_splits)
    qed
  qed
qed

lemma extends_prefix: "extends_map m m' \<Longrightarrow> prefix m m'"
  by (simp add: extends_map_def)

lemma extends_distinct: "extends_map m m' \<Longrightarrow> distinct (map fst m) \<Longrightarrow> distinct (map fst m')"
  by (simp add: extends_map_def)

lemma extends_key_ok: "extends_map m m' \<Longrightarrow> list_all key_ok m \<Longrightarrow> list_all key_ok m'"
  by (simp add: extends_map_def)

text \<open>
  Processing a list of records: a key already present keeps its entry, and a new key gets
  the entry of the first usable record that carries it.
\<close>

lemma map_of_snoc:
  "map_of (m @ [(k, v)]) s = (case map_of m s of Some c \<Rightarrow> Some c | None \<Rightarrow> if s = k then Some v else None)"
  by (auto simp: map_add_def split: option.splits)

lemma in_keys_iff: "k \<in> fst ` set m \<longleftrightarrow> map_of m k \<noteq> None"
  by (simp add: map_of_eq_None_iff)

lemma api_fold_lookup:
  "map_of (fold add_api_row data m) s =
     (case map_of m s of
        Some c \<Rightarrow> Some c
      | None \<Rightarrow> map_option api_coin (find (\<lambda>row. api_usable row \<and> api_symbol row = s) data))"
proof (induction data arbitrary: m)
  case Nil
  then show ?case by (simp split: option.splits)
next
  case (Cons row data)
  show ?case
    unfolding fold_Cons comp_def Cons.IH
    by (auto simp: add_api_row_def api_usable_def in_keys_iff map_of_snoc split: option.splits)
qed

lemma fst_add_web_row: "fst (add_web_row row (m, n)) = fst (add_web_row row (m, n'))"
  by (simp add: add_web_row_def)

lemma fst_fold_web_counter:
  "fst (fold add_web_row rows (m, n)) = fst (fold add_web_row rows (m, n'))"
proof (induction rows arbitrary: m n n')
  case Nil
  then show ?case by simp
next
  case (Cons row rows)
  obtain m1 n1 where a: "add_web_row row (m, n) = (m1, n1)" by (cases "add_web_row row (m, n)")
  obtain m2 n2 where b: "add_web_row row (m, n') = (m2, n2)" by (cases "add_web_row row (m, n')")
  have "m1 = m2" using fst_add_web_row[of row m n n'] a b by simp
  then show ?case using Cons.IH[of m1 n1 n2] a b by simp
qed

lemma web_fold_lookup:
  "map_of (fst (fold add_web_row rows (m, n))) s =
     (case map_of m s of
        Some c \<Rightarrow> Some c
      | None \<Rightarrow> map_option web_coin (find (\<lambda>row. web_usable row \<and> web_symbol row = s) rows))"
proof (induction rows arbitrary: m n)
  case Nil
  then show ?case by (simp split: option.splits)
next
  case (Cons row rows)
  obtain m1 n1 where a: "add_web_row row (m, n) = (m1, n1)" by (cases "add_web_row row (m, n)")
  have m1: "m1 = (if web_usable row \<and> map_of m (web_symbol row) = None
                  then m @ [(web_symbol row, web_coin row)] else m)"
    using a by (auto simp: add_web_row_def web_usable_def in_keys_iff split: if_splits)
  show ?case
    unfolding fold_Cons comp_def a Cons.IH m1
    by (auto simp: map_of_snoc split: option.splits)
qed

text \<open>What a run of either pagination loop reads, and what it returns.\<close>

lemma api_pages_consumed:
  "api_pages per_page pages m w = (Inr m', w') \<Longrightarrow>
     \<exists>n \<le> length (pending w). pending w' = drop n (pending w)
        \<and> m' = fold add_api_row (concat (map api_rows_of (take n (pending w)))) m"
proof (induction pages arbitrary: m w)
  case Nil
  then show ?case by (intro exI[of _ 0]) simp
next
  case (Cons page pages)
  obtain r w1 where s: "request_with_retry (api_url per_page page) (py_range 3) w = (r, w1)"
    by (cases "request_with_retry (api_url per_page page) (py_range 3) w")
  from Cons.prems s obtain p where r: "r = Inr (Some p)"
    by (auto simp del: request_with_retry.simps split: sum.splits option.splits)
  from Cons.prems s r obtain data where d: "json_loads p = JsonRows data"
    by (auto simp del: request_with_retry.simps split: json_doc.splits)
  from retry_result(2)[OF s r] obtain pre where
    pre: "pending w = pre @ Body p # pending w1" "concat (map api_rows_of pre) = []"
    by (elim disjE) (force simp: api_rows_of_def)+
  have rows: "concat (map api_rows_of (pre @ [Body p])) = data"
    using pre(2) d by (simp add: api_rows_of_def)
  show ?case
  proof (cases "data = []")
    case True
    then have "m' = m" "w' = w1"
      using Cons.prems s r d by (simp_all del: request_with_retry.simps)
    then show ?thesis
      using pre(1) rows True
      by (intro exI[of _ "length pre + 1"]) (simp del: concat_eq_Nil_conv)
  next
    case False
    then have "api_pages per_page pages (fold add_api_row data m) w1 = (Inr m', w')"
      using Cons.prems s r d by (simp del: request_with_retry.simps)
    from Cons.IH[OF this] obtain n where
      n: "n \<le> length (pending w1)" "pending w' = drop n (pending w1)"
        "m' = fold add_api_row (concat (map api_rows_of (take n (pending w1)))) (fold add_api_row data m)"
      by blast
    have t: "take (length pre + 1 + n) (pending w) = (pre @ [Body p]) @ take n (pending w1)"
      using pre(1) by simp
    show ?thesis
    proof (intro exI[of _ "length pre + 1 + n"] conjI)
      show "length pre + 1 + n \<le> length (pending w)" using n(1) pre(1) by simp
      show "pending w' = drop (length pre + 1 + n) (pending w)" using n(2) pre(1) by simp
      have "concat (map api_rows_of ((pre @ [Body p]) @ take n (pending w1)))
          = concat (map api_rows_of (pre @ [Body p])) @ concat (map api_rows_of (take n (pending w1)))"
        by (simp only: map_append concat_append)
      then have c: "concat (map api_rows_of (take (length pre + 1 + n) (pending w)))
          = data @ concat (map api_rows_of (take n (pending w1)))"
        unfolding t rows .
      show "m' = fold add_api_row
           (concat (map api_rows_of (take (length pre + 1 + n) (pending w)))) m"
        unfolding c using n(3) by simp
    qed
  qed
qed

lemma web_rows_of_simps:
  "web_rows_of Failure = []" "web_rows_of Broken = []" "web_rows_of (Body html) = findall_rows html"
  by (simp_all add: web_rows_of_def)

lemma web_pages_consumed:
  "web_pages pages m w = (Inr m', w') \<Longrightarrow>
     \<exists>n \<le> length (pending w). pending w' = drop n (pending w)
        \<and> m' = fst (fold add_web_row (concat (map web_rows_of (take n (pending w)))) (m, 0))"
proof (induction pages arbitrary: m w)
  case Nil
  then show ?case by (intro exI[of _ 0]) simp
next
  case (Cons page pages)
  obtain r w1 where s: "request_text (web_url page) w = (r, w1)"
    by (cases "request_text (web_url page) w")
  show ?case
  proof (cases r)
    case (Inl e)
    then have e: "e = NetworkError" and rec: "web_pages pages m w1 = (Inr m', w')"
      using Cons.prems s by (auto split: if_splits)
    from Cons.IH[OF rec] obtain n where
      n: "n \<le> length (pending w1)" "pending w' = drop n (pending w1)"
        "m' = fst (fold add_web_row (concat (map web_rows_of (take n (pending w1)))) (m, 0))"
      by blast
    from s Inl e consider "pending w = []" "pending w1 = []" | "pending w = Failure # pending w1"
      by (auto simp: request_text_def split: list.splits reply.splits)
    then show ?thesis
    proof cases
      case 1
      then show ?thesis using n by (intro exI[of _ 0]) simp
    next
      case 2
      then show ?thesis using n by (intro exI[of _ "Suc n"]) (simp add: web_rows_of_simps)
    qed
  next
    case (Inr html)
    then have pw: "pending w = Body html # pending w1"
      using s by (auto simp: request_text_def split: list.splits reply.splits)
    show ?thesis
    proof (cases "findall_rows html = []")
      case True
      then have rec: "web_pages pages m w1 = (Inr m', w')" using Cons.prems s Inr by simp
      from Cons.IH[OF rec] obtain n where
        n: "n \<le> length (pending w1)" "pending w' = drop n (pending w1)"
          "m' = fst (fold add_web_row (concat (map web_rows_of (take n (pending w1)))) (m, 0))"
        by blast
      then show ?thesis using pw True by (intro exI[of _ "Suc n"]) (simp add: web_rows_of_simps)
    next
      case False
      obtain m1 n1 where f: "fold add_web_row (findall_rows html) (m, 0) = (m1, n1)"
        by (cases "fold add_web_row (findall_rows html) (m, 0)")
      show ?thesis
      proof (cases "n1 = 0")
        case True
        then have "m' = m1" "w' = w1" using Cons.prems s Inr False f by simp_all
        then show ?thesis using pw f by (intro exI[of _ 1]) (simp add: web_rows_of_simps)
      next
        case n1: False
        then have rec: "web_pages pages m1 w1 = (Inr m', w')" using Cons.prems s Inr False f by simp
        from Cons.IH[OF rec] obtain n where
          n: "n \<le> length (pending w1)" "pending w' = drop n (pending w1)"
            "m' = fst (fold add_web_row (concat (map web_rows_of (take n (pending w1)))) (m1, 0))"
          by blast
        have "fst (fold add_web_row (findall_rows html @ concat (map web_rows_of (take n (pending w1)))) (m, 0))
            = fst (fold add_web_row (concat (map web_rows_of (take n (pending w1)))) (m1, n1))"
          by (simp add: f)
        also have "\<dots> = m'" unfolding n(3) by (rule fst_fold_web_counter)
        finally show ?thesis
          using n(1,2) pw by (intro exI[of _ "Suc n"]) (simp add: web_rows_of_simps)
      qed
    qed
  qed
qed

lemma consumed_take:
  "n \<le> length (pending w) \<Longrightarrow> pending w' = drop n (pending w) \<Longrightarrow> consumed w w' = take n (pending w)"
  by (simp add: consumed_def)

lemma retry_ok:
  "request_with_retry url (py_range 3) \<lparr>pending = Body p # rs, requested = rq, slept = sl\<rparr> =
     (Inr (Some p), \<lparr>pending = rs, requested = rq @ [url], slept = sl\<rparr>)"
  by (simp add: py_range_def upt_rec request_text_def)

lemma api_two_pages:
  "json_loads p = JsonRows data \<Longrightarrow> data \<noteq> [] \<Longrightarrow>
   api_pages per_page (p1 # p2 # ps) m (world0 [Body p, Body empty_page]) =
     (Inr (fold add_api_row data m),
      \<lparr>pending = [], requested = [api_url per_page p1, api_url per_page p2], slept = []\<rparr>)"
  by (simp add: world0_def retry_ok empty_page_def del: request_with_retry.simps)

lemma api_rows_eval:
  "api_symbol (btc_record) = ''btc''" "api_rank (btc_record) = JInt 1"
  "api_coin (btc_record) = btc_coin"
  "api_symbol (bitclone_record) = ''btc''" "api_rank (bitclone_record) = JInt 7"
  "api_symbol (eth_record) = ''eth''" "api_rank (eth_record) = JInt 2"
  "api_coin (eth_record) = eth_coin"
  by (simp_all add: btc_record_def bitclone_record_def eth_record_def api_symbol_def api_rank_def api_coin_def json_get_def
      btc_coin_def eth_coin_def str_eval)

lemma api_rows_fold: "fold add_api_row api_rows [] = [(''btc'', btc_coin), (''eth'', eth_coin)]"
  by (simp add: api_rows_def add_api_row_def api_rows_eval)

lemma fetch_api_example:
  "fetch_ranked_symbols 10 250 (world0 [Body api_page, Body empty_page]) =
     (Inr [(''btc'', btc_coin), (''eth'', eth_coin)],
      \<lparr>pending = [], requested = [api_url 250 1, api_url 250 2], slept = []\<rparr>)"
proof -
  have "json_loads api_page = JsonRows api_rows" "api_rows \<noteq> []"
    by (simp_all add: api_page_def api_rows_def)
  from api_two_pages[OF this] show ?thesis
    unfolding fetch_ranked_symbols_def pages10_all by (simp only: api_rows_fold)
qed

lemma fetch_web_example:
  "fetch_ranked_symbols_from_web 10 (world0 [Body web_page]) =
     (Inr [(''btc'', btc_coin_web)],
      \<lparr>pending = [],
        requested = [web_url 1, web_url 2, web_url 3, web_url 4, web_url 5, web_url 6,
                     web_url 7, web_url 8, web_url 9, web_url 10],
        slept = []\<rparr>)"
  unfolding fetch_ranked_symbols_from_web_def pages10_all
  by (simp add: request_text_def world0_def web_page_def add_btc web_pages_exhausted)

lemma consumed_api_example:
  "concat (map api_rows_of (consumed (world0 [Body api_page, Body empty_page])
      \<lparr>pending = [], requested = rq, slept = sl\<rparr>)) = api_rows"
  by (simp add: consumed_def world0_def api_rows_of_def api_page_def empty_page_def)

lemma consumed_web_example:
  "concat (map web_rows_of (consumed (world0 [Body web_page])
      \<lparr>pending = [], requested = rq, slept = sl\<rparr>)) = [btc_web_row]"
  by (simp add: consumed_def world0_def web_rows_of_def web_page_def)

lemma find_api_example:
  "find (\<lambda>row. api_usable row \<and> api_symbol row = ''btc'') api_rows = Some (btc_record)"
  "find (\<lambda>row. api_usable row \<and> api_symbol row = ''eth'') api_rows = Some (eth_record)"
  "find (\<lambda>row. api_usable row \<and> api_symbol row = ''xrp'') api_rows = None"
  by (simp_all add: api_rows_def api_usable_def api_rows_eval)

lemma find_web_example:
  "find (\<lambda>row. web_usable row \<and> web_symbol row = ''btc'') [btc_web_row] = Some btc_web_row"
  by (simp add: web_usable_def web_symbol_btc) (simp add: btc_web_row_def)

lemma ghost_rows_eval:
  "api_symbol (ghost_record) = ''btc''" "api_rank (ghost_record) = JNull"
  "api_symbol (plain_btc_record) = ''btc''" "api_rank (plain_btc_record) = JInt 1"
  "api_coin (plain_btc_record) = btc_coin"
  "api_symbol (doge_record) = ''doge''" "api_rank (doge_record) = JNull"
  "coin_id (api_coin (ghost_record)) = ''ghost''"
  by (simp_all add: ghost_record_def plain_btc_record_def doge_record_def api_symbol_def api_rank_def api_coin_def json_get_def
      btc_coin_def str_eval)

lemma ghost_coin:
  "api_coin ghost_record =
     \<lparr>coin_id = ''ghost'', coin_name = ''Ghost'', coin_symbol = ''btc'', coin_rank = ''None''\<rparr>"
  by (simp add: ghost_record_def api_symbol_def api_rank_def api_coin_def json_get_def str_eval)

lemma ghost_rows_fold: "fold add_api_row ghost_rows [] = [(''btc'', btc_coin)]"
  by (simp add: ghost_rows_def add_api_row_def ghost_rows_eval)

lemma fetch_ghost_example:
  "fetch_ranked_symbols 10 250 (world0 [Body ghost_page, Body empty_page]) =
     (Inr [(''btc'', btc_coin)],
      \<lparr>pending = [], requested = [api_url 250 1, api_url 250 2], slept = []\<rparr>)"
proof -
  have "json_loads ghost_page = JsonRows ghost_rows" "ghost_rows \<noteq> []"
    by (simp_all add: ghost_page_def ghost_rows_def)
  from api_two_pages[OF this] show ?thesis
    unfolding fetch_ranked_symbols_def pages10_all by (simp only: ghost_rows_fold)
qed

text \<open>
  Claim C3, as the code has it.  In the map either adapter returns the keys are distinct,
  and the entry under a symbol is the one built from the first usable record with that
  symbol among all records of the replies read, in the order they were read; a symbol
  with no usable record has no entry.  A usable record is one the adapter does not skip for
  its own sake: in the primary path its symbol is not empty and its rank is not \<open>None\<close>, in
  the fallback path the rank and the symbol pattern match and the symbol is not empty.  So
  a later record with the same symbol never replaces the entry, and a lookup has one
  answer.
\<close>

theorem ranking_holds_first_usable_record:
  "(fetch_ranked_symbols max_pages per_page w = (Inr m, w') \<longrightarrow>
      distinct (map fst m)
      \<and> map_of m s =
          map_option api_coin
            (find (\<lambda>row. api_usable row \<and> api_symbol row = s)
               (concat (map api_rows_of (consumed w w')))))
   \<and> (fetch_ranked_symbols_from_web max_pages2 w2 = (Inr m2, w2') \<longrightarrow>
      distinct (map fst m2)
      \<and> map_of m2 s2 =
          map_option web_coin
            (find (\<lambda>row. web_usable row \<and> web_symbol row = s2)
               (concat (map web_rows_of (consumed w2 w2')))))"
proof (intro conjI impI)
  assume a: "fetch_ranked_symbols max_pages per_page w = (Inr m, w')"
  then have p: "api_pages per_page [1..<max_pages + 1] [] w = (Inr m, w')"
    by (simp add: fetch_ranked_symbols_def)
  show "distinct (map fst m)"
    using extends_distinct[OF extends_api_pages[OF p]] by simp
  from api_pages_consumed[OF p] obtain n where
    n: "n \<le> length (pending w)" "pending w' = drop n (pending w)"
      "m = fold add_api_row (concat (map api_rows_of (take n (pending w)))) []"
    by blast
  show "map_of m s =
          map_option api_coin
            (find (\<lambda>row. api_usable row \<and> api_symbol row = s)
               (concat (map api_rows_of (consumed w w'))))"
    unfolding consumed_take[OF n(1,2)] by (subst n(3)) (simp add: api_fold_lookup)
next
  assume a: "fetch_ranked_symbols_from_web max_pages2 w2 = (Inr m2, w2')"
  then have p: "web_pages [1..<max_pages2 + 1] [] w2 = (Inr m2, w2')"
    by (simp add: fetch_ranked_symbols_from_web_def)
  show "distinct (map fst m2)"
    using extends_distinct[OF extends_web_pages[OF p]] by simp
  from web_pages_consumed[OF p] obtain n where
    n: "n \<le> length (pending w2)" "pending w2' = drop n (pending w2)"
      "m2 = fst (fold add_web_row (concat (map web_rows_of (take n (pending w2)))) ([], 0))"
    by blast
  show "map_of m2 s2 =
          map_option web_coin
            (find (\<lambda>row. web_usable row \<and> web_symbol row = s2)
               (concat (map web_rows_of (consumed w2 w2'))))"
    unfolding consumed_take[OF n(1,2)] by (subst n(3)) (simp add: web_fold_lookup)
qed

theorem ranking_holds_first_usable_record_witness:
  "fetch_ranked_symbols 10 250 (world0 [Body api_page, Body empty_page]) =
     (Inr [(''btc'', btc_coin), (''eth'', eth_coin)],
      \<lparr>pending = [], requested = [api_url 250 1, api_url 250 2], slept = []\<rparr>)
   \<and> distinct (map fst [(''btc'', btc_coin), (''eth'', eth_coin)])
   \<and> map_of [(''btc'', btc_coin), (''eth'', eth_coin)] ''btc'' = Some (api_coin (btc_record))
   \<and> api_symbol (bitclone_record) = ''btc''
   \<and> fetch_ranked_symbols_from_web 10 (world0 [Body web_page]) =
     (Inr [(''btc'', btc_coin_web)],
      \<lparr>pending = [],
        requested = [web_url 1, web_url 2, web_url 3, web_url 4, web_url 5, web_url 6,
                     web_url 7, web_url 8, web_url 9, web_url 10],
        slept = []\<rparr>)
   \<and> map_of [(''btc'', btc_coin_web)] ''btc'' = Some (web_coin btc_web_row)"
  using ranking_holds_first_usable_record
    [of 10 250 "world0 [Body api_page, Body empty_page]" "[(''btc'', btc_coin), (''eth'', eth_coin)]"
        "\<lparr>pending = [], requested = [api_url 250 1, api_url 250 2], slept = []\<rparr>"
        "''btc''" 10 "world0 [Body web_page]" "[(''btc'', btc_coin_web)]"
        "\<lparr>pending = [],
          requested = [web_url 1, web_url 2, web_url 3, web_url 4, web_url 5, web_url 6,
                       web_url 7, web_url 8, web_url 9, web_url 10],
          slept = []\<rparr>" "''btc''"]
  apply (simp only: fetch_api_example fetch_web_example consumed_api_example consumed_web_example
      find_api_example find_web_example api_rows_eval)
  apply simp
  done

text \<open>
  Claim C3 as stated does not hold.  The first page below has three records: one for \<open>btc\<close>
  with no rank, a second one for \<open>btc\<close> with rank 1, and one for \<open>doge\<close> without the rank
  key.  The map returned holds the second record under \<open>btc\<close>, not the first-seen one, and
  has no entry for the symbol \<open>doge\<close>.
\<close>

theorem first_seen_record_without_rank_is_not_stored:
  "fetch_ranked_symbols 10 250 (world0 [Body ghost_page, Body empty_page]) =
     (Inr [(''btc'', btc_coin)],
      \<lparr>pending = [], requested = [api_url 250 1, api_url 250 2], slept = []\<rparr>)
   \<and> json_loads ghost_page = JsonRows ghost_rows
   \<and> api_symbol (ghost_record) = ''btc''
   \<and> coin_id (api_coin (ghost_record)) = ''ghost''
   \<and> api_coin (plain_btc_record) = btc_coin
   \<and> coin_id btc_coin = ''bitcoin''
   \<and> map_of [(''btc'', btc_coin)] ''btc'' \<noteq> Some (api_coin (ghost_record))
   \<and> api_symbol (doge_record) = ''doge''
   \<and> map_of [(''btc'', btc_coin)] ''doge'' = None"
  apply (simp only: fetch_ghost_example ghost_rows_eval)
  apply (simp add: ghost_page_def)
  apply (simp add: btc_coin_def ghost_coin)
  done

text \<open>
  Claim C10.  In the map either adapter returns, every key is non-empty, is its own
  \<open>lower\<close> and its own \<open>strip\<close>, and equals the \<open>coin_symbol\<close> field of the entry stored
  under it.
\<close>

theorem ranking_keys_normalised:
  "(fetch_ranked_symbols max_pages per_page w = (Inr m, w1) \<longrightarrow>
      (\<forall>(s, c) \<in> set m. s \<noteq> [] \<and> lower s = s \<and> strip s = s \<and> coin_symbol c = s))
   \<and> (fetch_ranked_symbols_from_web max_pages' w' = (Inr m2, w2) \<longrightarrow>
      (\<forall>(s, c) \<in> set m2. s \<noteq> [] \<and> lower s = s \<and> strip s = s \<and> coin_symbol c = s))"
proof -
  have a: "list_all key_ok m" if "fetch_ranked_symbols max_pages per_page w = (Inr m, w1)"
    using extends_key_ok[OF extends_api_pages[of per_page "[1..<max_pages + 1]" "[]" w m w1]] that
    by (simp add: fetch_ranked_symbols_def)
  have b: "list_all key_ok m2" if "fetch_ranked_symbols_from_web max_pages' w' = (Inr m2, w2)"
    using extends_key_ok[OF extends_web_pages[of "[1..<max_pages' + 1]" "[]" w' m2 w2]] that
    by (simp add: fetch_ranked_symbols_from_web_def)
  show ?thesis using a b by (fastforce simp: list_all_iff key_ok_def)
qed

theorem ranking_keys_normalised_witness:
  "fetch_ranked_symbols 10 250 (world0 [Body api_page, Body empty_page]) =
     (Inr [(''btc'', btc_coin), (''eth'', eth_coin)],
      \<lparr>pending = [], requested = [api_url 250 1, api_url 250 2], slept = []\<rparr>)
   \<and> lower ''btc'' = ''btc'' \<and> strip ''btc'' = ''btc'' \<and> coin_symbol btc_coin = ''btc''
   \<and> lower ''eth'' = ''eth'' \<and> strip ''eth'' = ''eth'' \<and> coin_symbol eth_coin = ''eth''
   \<and> fetch_ranked_symbols_from_web 10 (world0 [Body web_page]) =
     (Inr [(''btc'', btc_coin_web)],
      \<lparr>pending = [],
        requested = [web_url 1, web_url 2, web_url 3, web_url 4, web_url 5, web_url 6,
                     web_url 7, web_url 8, web_url 9, web_url 10],
        slept = []\<rparr>)
   \<and> coin_symbol btc_coin_web = ''btc''"
  using ranking_keys_normalised
    [of 10 250 "world0 [Body api_page, Body empty_page]" "[(''btc'', btc_coin), (''eth'', eth_coin)]"
        "\<lparr>pending = [], requested = [api_url 250 1, api_url 250 2], slept = []\<rparr>"
        10 "world0 [Body web_page]" "[(''btc'', btc_coin_web)]"
        "\<lparr>pending = [],
          requested = [web_url 1, web_url 2, web_url 3, web_url 4, web_url 5, web_url 6,
                       web_url 7, web_url 8, web_url 9, web_url 10],
          slept = []\<rparr>"]
  apply (simp only: fetch_api_example fetch_web_example)
  apply simp
  done
section \<open>Properties of the merge engine\<close>

lemma fold_update_lookup:
  "map_of (fold (\<lambda>k d. AList.update k (g k) d) ks d0) k' =
     (if k' \<in> set ks then Some (g k') else map_of d0 k')"
  by (induction ks arbitrary: d0) (auto simp: update_conv')

lemma merged_row_lookup:
  "map_of (merged_row coin_meta file_name base_headers row) k =
     (if k \<in> set base_headers then Some (dict_get row k (Some ''''))
      else map_of [(''coin_rank'', Some (coin_rank coin_meta)), (''coin_id'', Some (coin_id coin_meta)),
                   (''coin_name'', Some (coin_name coin_meta)),
                   (''coin_symbol'', Some (coin_symbol coin_meta)),
                   (''source_file'', Some file_name)] k)"
  unfolding merged_row_def by (rule fold_update_lookup)

lemma first_headers_Cons:
  "first_headers (f # fs) = (if fieldnames f = [] then first_headers fs else fieldnames f)"
  by (simp add: first_headers_def)

lemma first_headers_append:
  "first_headers (xs @ ys) = (if first_headers xs = [] then first_headers ys else first_headers xs)"
  by (induction xs) (simp_all add: first_headers_Cons, simp add: first_headers_def)

lemma headers_in_effect_cases:
  "headers_in_effect files i = [] \<or> headers_in_effect files i = first_headers files"
  using first_headers_append[of "take (Suc i) files" "drop (Suc i) files"]
  by (auto simp: headers_in_effect_def)

lemma headers_in_effect_own:
  assumes "i < length files" and "fieldnames (files ! i) \<noteq> []"
  shows "headers_in_effect files i = first_headers files"
proof -
  have "take (Suc i) files = take i files @ [files ! i]"
    using assms(1) by (simp add: take_Suc_conv_app_nth)
  then have "headers_in_effect files i \<noteq> []"
    using assms(2) by (simp add: headers_in_effect_def first_headers_append first_headers_Cons)
  then show ?thesis using headers_in_effect_cases[of files i] by simp
qed

lemma ingest_eq_gen:
  "ingest m files (all_rows, un, base) =
     (all_rows @ concat (map (\<lambda>i. file_rows m (if base = [] then headers_in_effect files i else base)
                                    (files ! i)) [0..<length files]),
      un @ map name (filter (unmatched m) files),
      (if base = [] then first_headers files else base))"
proof (induction files arbitrary: all_rows un base)
  case Nil
  then show ?case by (simp add: first_headers_def)
next
  case (Cons f fs)
  have u: "[0..<length (f # fs)] = 0 # map Suc [0..<length fs]"
    by (simp add: upt_conv_Cons map_Suc_upt del: upt_Suc)
  have h0: "headers_in_effect (f # fs) 0 = fieldnames f"
    by (simp add: headers_in_effect_def first_headers_Cons) (simp add: first_headers_def)
  have hS: "headers_in_effect (f # fs) (Suc i) =
      (if fieldnames f = [] then headers_in_effect fs i else fieldnames f)" for i
    by (simp add: headers_in_effect_def first_headers_Cons)
  show ?case
    unfolding u
    by (simp add: Cons.IH Let_def unmatched_def first_headers_Cons h0 hS comp_def
        split: option.splits)
qed

lemma ingest_eq:
  "ingest m files ([], [], []) =
     (concat (map (rows_from m files) [0..<length files]),
      map name (filter (unmatched m) files), first_headers files)"
  by (simp add: ingest_eq_gen rows_from_def[abs_def] file_rows_def)

lemma build_merged_rows_eq:
  "build_merged_rows files m =
     (case sort_rows (concat (map (rows_from m files) [0..<length files])) of
        Inl e \<Rightarrow> Inl e
      | Inr sorted_rows \<Rightarrow>
          Inr (fixed_headers @ first_headers files, sorted_rows,
               map name (filter (unmatched m) files)))"
  by (simp add: build_merged_rows_def ingest_eq)

lemma keyed_Inr:
  "keyed rows = Inr ks \<Longrightarrow> ks = map (\<lambda>r. (the_key r, r)) rows \<and> (\<forall>r \<in> set rows. sort_key_of r = Inr (the_key r))"
  by (induction rows arbitrary: ks) (auto simp: the_key_def split: sum.splits)

lemma keyed_ok:
  "\<forall>r \<in> set rows. \<not> isl (sort_key_of r) \<Longrightarrow> keyed rows = Inr (map (\<lambda>r. (the_key r, r)) rows)"
  by (induction rows) (auto simp: the_key_def split: sum.splits)

lemma sort_decorated_aux:
  "sort_key fst (map (\<lambda>r. (K r, r)) xs) = map (\<lambda>r. (K r, r)) (sort_key K xs)"
proof (induction xs)
  case Nil
  then show ?case by simp
next
  case (Cons x xs)
  have "insort_key fst (K x, x) (map (\<lambda>r. (K r, r)) ys) = map (\<lambda>r. (K r, r)) (insort_key K x ys)" for ys
    by (induction ys) auto
  then show ?case by (simp add: Cons.IH)
qed

lemma sort_decorated: "map snd (sort_key fst (map (\<lambda>r. (K r, r)) xs)) = sort_key K xs"
  by (simp add: sort_decorated_aux comp_def)

lemma sort_rows_Inr:
  assumes "sort_rows rows = Inr out"
  shows "out = sort_key the_key rows" and "\<forall>r \<in> set rows. sort_key_of r = Inr (the_key r)"
    and "\<forall>r \<in> set rows. \<forall>r' \<in> set rows. comparable (the_key r) (the_key r')"
proof -
  from assms obtain ks where k: "keyed rows = Inr ks" and o: "out = map snd (sort_key fst ks)"
    and c: "list_all (\<lambda>k. list_all (comparable k) (map fst ks)) (map fst ks)"
    by (auto simp: sort_rows_def split: sum.splits if_splits)
  from keyed_Inr[OF k] show "\<forall>r \<in> set rows. sort_key_of r = Inr (the_key r)" by simp
  from keyed_Inr[OF k] o show "out = sort_key the_key rows" by (simp add: sort_decorated)
  from keyed_Inr[OF k] c show "\<forall>r \<in> set rows. \<forall>r' \<in> set rows. comparable (the_key r) (the_key r')"
    by (simp add: list_all_iff comp_def)
qed

lemma sort_rows_ok:
  assumes "\<forall>r \<in> set rows. \<not> isl (sort_key_of r)"
    and "\<forall>r \<in> set rows. \<forall>r' \<in> set rows. comparable (the_key r) (the_key r')"
  shows "sort_rows rows = Inr (sort_key the_key rows)"
  using assms(2) by (simp add: sort_rows_def keyed_ok[OF assms(1)] sort_decorated list_all_iff comp_def)

lemma sorted_output_keys:
  assumes "sort_rows rows = Inr out"
  shows "map sort_key_of out = map Inr (map the_key out)" and "sorted (map the_key out)"
    and "mset out = mset rows"
proof -
  note s = sort_rows_Inr[OF assms]
  show "map sort_key_of out = map Inr (map the_key out)" using s by simp
  show "sorted (map the_key out)" using s(1) by simp
  show "mset out = mset rows" using s(1) by simp
qed

lemma sort_key_of_rank:
  "sort_key_of r = Inr k \<Longrightarrow> \<exists>s. map_of r ''coin_rank'' = Some (Some s) \<and> py_int s = Some (fst k)"
  by (auto simp: sort_key_of_def split: option.splits)

lemma py_int_sentinel: "py_int ''999999'' = Some 999999"
  by (simp add: str_eval)

lemma rows_from_rank:
  assumes "r \<in> set (rows_from m files i)" and "''coin_rank'' \<notin> set (first_headers files)"
  shows "map_of r ''coin_rank'' = Some (Some (coin_rank (coin_meta_for m (files ! i))))"
proof -
  have "''coin_rank'' \<notin> set (headers_in_effect files i)"
    using headers_in_effect_cases[of files i] assms(2) by auto
  then show ?thesis using assms(1) by (auto simp: rows_from_def merged_row_lookup)
qed

lemma fst_le_of_le: "(k :: sort_key) \<le> k' \<Longrightarrow> fst k \<le> fst k'"
  by (cases k, cases k') (auto simp: less_eq_prod_def)

lemma sum_list_length_concat: "length (concat (map B xs)) = sum_list (map (\<lambda>x. length (B x)) xs)"
  by (induction xs) auto

lemma mset_block_subset: "x \<in> set xs \<Longrightarrow> mset (B x) \<subseteq># mset (concat (map B xs))"
proof (induction xs)
  case Nil
  then show ?case by simp
next
  case (Cons a xs)
  show ?case
  proof (cases "x = a")
    case True
    then show ?thesis by simp
  next
    case False
    with Cons have "mset (B x) \<subseteq># mset (concat (map B xs))" by simp
    then show ?thesis by (simp add: subset_mset.add_increasing)
  qed
qed

lemma sum_list_rows:
  "sum_list (map (\<lambda>i. length (reader_rows (files ! i))) [0..<length files])
     = sum_list (map (\<lambda>f. length (reader_rows f)) files)"
proof -
  have "map (\<lambda>i. length (reader_rows (files ! i))) [0..<length files]
      = map (\<lambda>f. length (reader_rows f)) (map ((!) files) [0..<length files])"
    by simp
  then show ?thesis by (simp only: map_nth)
qed

lemmas merge_eval =
  build_merged_rows_def sort_rows_def sort_key_of_def file_rows_def reader_rows_def merged_row_def
  coin_meta_for_def placeholder_def parse_symbol_from_filename_def fixed_headers_def
  less_eq_prod_def less_prod_def Let_def first_headers_def fieldnames_def dict_row_def
  comparable_def unmatched_def headers_in_effect_def rows_from_def

lemmas example_eval =
  btc_file_def xrp_file_def btc_coin_def ranking_example_def btc_row_1_def btc_row_2_def
  xrp_row_def example_headers_def blank_first_file_def short_line_file_def ltc_file_def
  eth_file_def upper_btc_file_def late_coin_def ranked_btc_file_def ranked_xrp_file_def

lemma build_xrp_btc:
  "build_merged_rows [xrp_file, btc_file] ranking_example =
     Inr (example_headers, [btc_row_1, btc_row_2, xrp_row], [''xrp-usd-max.csv''])"
  by (simp add: merge_eval example_eval str_eval)

lemma build_btc_xrp:
  "build_merged_rows [btc_file, xrp_file] ranking_example =
     Inr (example_headers, [btc_row_1, btc_row_2, xrp_row], [''xrp-usd-max.csv''])"
  by (simp add: merge_eval example_eval str_eval)

lemma build_blank_first:
  "build_merged_rows [blank_first_file, btc_file] ranking_example =
     Inr (fixed_headers @ [''snapped_at'', ''price''],
          [btc_row_1, btc_row_2,
           [(''coin_rank'', Some ''999999''), (''coin_id'', Some ''''), (''coin_name'', Some ''''),
            (''coin_symbol'', Some ''ada''), (''source_file'', Some ''ada-usd-max.csv'')]],
          [''ada-usd-max.csv''])"
  by (simp add: merge_eval example_eval str_eval)

lemma build_ltc:
  "build_merged_rows [ltc_file] ranking_example =
     Inr (fixed_headers @ [''source_file''],
          [[(''coin_rank'', Some ''999999''), (''coin_id'', Some ''''), (''coin_name'', Some ''''),
            (''coin_symbol'', Some ''ltc''), (''source_file'', Some ''elsewhere'')]],
          [''ltc-usd-max.csv''])"
  by (simp add: merge_eval example_eval str_eval)

lemma build_short_line:
  "build_merged_rows [short_line_file] ranking_example =
     Inr (fixed_headers @ [''snapped_at'', ''price''],
          [[(''coin_rank'', Some ''999999''), (''coin_id'', Some ''''), (''coin_name'', Some ''''),
            (''coin_symbol'', Some ''sol''), (''source_file'', Some ''sol-usd-max.csv''),
            (''snapped_at'', Some ''2021-01-01''), (''price'', None)]],
          [''sol-usd-max.csv''])"
  by (simp add: merge_eval example_eval str_eval)

text \<open>
  Claim C4, as the code has it.  When the merge produces an output: the merged rows are, as
  a multiset, exactly the rows of all files, each merged with its file's ranking entry
  under the base headers in effect while the file is read; their number is the sum of the
  files' row counts; and the header is the five fixed columns followed by the first line
  of the first file whose first line is not empty.  A merged row holds, under every base
  header in effect, the row's value, or the empty string when the row has no such key; and
  it holds its file's name under \<open>source_file\<close> when no base header in effect has that name.
\<close>

theorem merged_rows_complete:
  assumes "build_merged_rows files m = Inr (hdr, out, un)"
  shows "mset out = mset (concat (map (rows_from m files) [0..<length files]))
     \<and> length out = sum_list (map (\<lambda>f. length (reader_rows f)) files)
     \<and> hdr = fixed_headers @ first_headers files
     \<and> (\<forall>i < length files. \<forall>row \<in> set (reader_rows (files ! i)).
          (\<forall>k \<in> set (headers_in_effect files i).
             map_of (merged_row (coin_meta_for m (files ! i)) (name (files ! i))
                       (headers_in_effect files i) row) k
               = Some (case map_of row k of None \<Rightarrow> Some '''' | Some v \<Rightarrow> v))
          \<and> (''source_file'' \<notin> set (headers_in_effect files i) \<longrightarrow>
               map_of (merged_row (coin_meta_for m (files ! i)) (name (files ! i))
                         (headers_in_effect files i) row) ''source_file''
                 = Some (Some (name (files ! i)))))"
proof -
  let ?rows = "concat (map (rows_from m files) [0..<length files])"
  from assms(1) have s: "sort_rows ?rows = Inr out" and h: "hdr = fixed_headers @ first_headers files"
    by (auto simp: build_merged_rows_eq split: sum.splits)
  have m: "mset out = mset ?rows" by (rule sorted_output_keys(3)[OF s])
  then have "length out = length ?rows" by (rule mset_eq_length)
  then have l: "length out = sum_list (map (\<lambda>f. length (reader_rows f)) files)"
    by (simp add: sum_list_length_concat rows_from_def sum_list_rows)
  show ?thesis using m l h by (simp add: merged_row_lookup dict_get_def)
qed

theorem merged_rows_complete_witness:
  "build_merged_rows [xrp_file, btc_file] ranking_example =
     Inr (example_headers, [btc_row_1, btc_row_2, xrp_row], [''xrp-usd-max.csv''])
   \<and> length [btc_row_1, btc_row_2, xrp_row] =
       sum_list (map (\<lambda>f. length (reader_rows f)) [xrp_file, btc_file])
   \<and> example_headers = fixed_headers @ first_headers [xrp_file, btc_file]
   \<and> mset [btc_row_1, btc_row_2, xrp_row] =
       mset (concat (map (rows_from ranking_example [xrp_file, btc_file]) [0..<length [xrp_file, btc_file]]))
   \<and> rows_from ranking_example [xrp_file, btc_file] 0 = [xrp_row]
   \<and> headers_in_effect [xrp_file, btc_file] 0 = [''snapped_at'', ''price'']
   \<and> map_of xrp_row ''price'' = Some (Some ''3'')
   \<and> map_of xrp_row ''source_file'' = Some (Some (name xrp_file))"
  using merged_rows_complete
    [of "[xrp_file, btc_file]" ranking_example example_headers "[btc_row_1, btc_row_2, xrp_row]"
        "[''xrp-usd-max.csv'']"]
  apply (simp only: build_xrp_btc)
  apply (simp add: merge_eval example_eval str_eval)
  done

text \<open>
  Claim C4 as stated fails in three ways.  The first file below has a blank first line: the
  base headers are those of the second file, and the row of the first file, read while no
  base header is in effect, has the five fixed columns only.  A file with a column named
  \<open>source_file\<close> keeps the column's value in the merged row, not the file's name.  And a
  line shorter than the header gives \<open>None\<close> under the missing column, not the empty string.
\<close>

theorem merged_rows_header_source_and_fill_counterexample:
  "fieldnames (hd [blank_first_file, btc_file]) = []
   \<and> reader_rows blank_first_file = [[]]
   \<and> build_merged_rows [blank_first_file, btc_file] ranking_example =
     Inr (fixed_headers @ [''snapped_at'', ''price''],
          [btc_row_1, btc_row_2,
           [(''coin_rank'', Some ''999999''), (''coin_id'', Some ''''), (''coin_name'', Some ''''),
            (''coin_symbol'', Some ''ada''), (''source_file'', Some ''ada-usd-max.csv'')]],
          [''ada-usd-max.csv''])
   \<and> build_merged_rows [ltc_file] ranking_example =
     Inr (fixed_headers @ [''source_file''],
          [[(''coin_rank'', Some ''999999''), (''coin_id'', Some ''''), (''coin_name'', Some ''''),
            (''coin_symbol'', Some ''ltc''), (''source_file'', Some ''elsewhere'')]],
          [''ltc-usd-max.csv''])
   \<and> build_merged_rows [short_line_file] ranking_example =
     Inr (fixed_headers @ [''snapped_at'', ''price''],
          [[(''coin_rank'', Some ''999999''), (''coin_id'', Some ''''), (''coin_name'', Some ''''),
            (''coin_symbol'', Some ''sol''), (''source_file'', Some ''sol-usd-max.csv''),
            (''snapped_at'', Some ''2021-01-01''), (''price'', None)]],
          [''sol-usd-max.csv''])"
  apply (simp only: build_blank_first build_ltc build_short_line)
  apply (simp add: merge_eval example_eval)
  done

lemma build_late:
  "build_merged_rows [btc_file, xrp_file] [(''btc'', late_coin)] =
     Inr (example_headers,
          [xrp_row,
           [(''coin_rank'', Some ''1000000''), (''coin_id'', Some ''bitcoin''),
            (''coin_name'', Some ''Bitcoin''), (''coin_symbol'', Some ''btc''),
            (''source_file'', Some ''btc-usd-max.csv''),
            (''snapped_at'', Some ''2021-01-01''), (''price'', Some ''1'')],
           [(''coin_rank'', Some ''1000000''), (''coin_id'', Some ''bitcoin''),
            (''coin_name'', Some ''Bitcoin''), (''coin_symbol'', Some ''btc''),
            (''source_file'', Some ''btc-usd-max.csv''),
            (''snapped_at'', Some ''2021-01-02''), (''price'', Some ''2'')]],
          [''xrp-usd-max.csv''])"
  by (simp add: merge_eval example_eval str_eval)

lemma build_ranked:
  "build_merged_rows [ranked_btc_file, ranked_xrp_file] ranking_example =
     Inr (fixed_headers @ [''coin_rank''],
          [[(''coin_rank'', Some ''0''), (''coin_id'', Some ''''), (''coin_name'', Some ''''),
            (''coin_symbol'', Some ''xrp''), (''source_file'', Some ''xrp-usd-max.csv'')],
           [(''coin_rank'', Some ''5''), (''coin_id'', Some ''bitcoin''),
            (''coin_name'', Some ''Bitcoin''), (''coin_symbol'', Some ''btc''),
            (''source_file'', Some ''btc-usd-max.csv'')]],
          [''xrp-usd-max.csv''])"
  by (simp add: merge_eval example_eval str_eval)

text \<open>
  Claim C2, as the code has it.  A file whose symbol is absent from the ranking map gets
  the placeholder entry with empty id and name and rank 999999.  When the merge produces an
  output, the file's name is in the unmatched list and all its rows are in the output, one
  merged row per data row.  Provided no base header is named \<open>coin_rank\<close> and every rank of
  a matched file is an integer below 999999, each of these rows stands after every row of
  every matched file.
\<close>

theorem unmatched_files_sort_last:
  assumes "i < length files" and "map_of m (parse_symbol_from_filename (files ! i)) = None"
  shows "coin_meta_for m (files ! i) =
       \<lparr>coin_id = '''', coin_name = '''', coin_symbol = parse_symbol_from_filename (files ! i),
        coin_rank = ''999999''\<rparr>
     \<and> (build_merged_rows files m = Inr (hdr, out, un) \<longrightarrow>
          name (files ! i) \<in> set un
          \<and> mset (rows_from m files i) \<subseteq># mset out
          \<and> length (rows_from m files i) = length (reader_rows (files ! i))
          \<and> (''coin_rank'' \<notin> set (first_headers files)
              \<and> (\<forall>g \<in> set files. \<forall>c. map_of m (parse_symbol_from_filename g) = Some c \<longrightarrow>
                    (\<exists>n. py_int (coin_rank c) = Some n \<and> n < 999999))
             \<longrightarrow> (\<forall>j < length files. map_of m (parse_symbol_from_filename (files ! j)) \<noteq> None \<longrightarrow>
                    (\<forall>p q. p < length out \<and> q < length out
                        \<and> out ! p \<in> set (rows_from m files j)
                        \<and> out ! q \<in> set (rows_from m files i) \<longrightarrow> p < q))))"
proof (intro conjI impI)
  show meta: "coin_meta_for m (files ! i) =
       \<lparr>coin_id = '''', coin_name = '''', coin_symbol = parse_symbol_from_filename (files ! i),
        coin_rank = ''999999''\<rparr>"
    using assms(2) by (simp add: coin_meta_for_def placeholder_def)
  assume b: "build_merged_rows files m = Inr (hdr, out, un)"
  let ?rows = "concat (map (rows_from m files) [0..<length files])"
  from b have s: "sort_rows ?rows = Inr out"
    and u: "un = map name (filter (unmatched m) files)"
    by (auto simp: build_merged_rows_eq split: sum.splits)
  note k = sorted_output_keys[OF s] and a = sort_rows_Inr[OF s]
  have "files ! i \<in> set files" using assms(1) by simp
  then show "name (files ! i) \<in> set un" using assms(2) u by (auto simp: unmatched_def)
  have "i \<in> set [0..<length files]" using assms(1) by simp
  then have "mset (rows_from m files i) \<subseteq># mset ?rows" by (rule mset_block_subset)
  then show "mset (rows_from m files i) \<subseteq># mset out" using k(3) by simp
  show "length (rows_from m files i) = length (reader_rows (files ! i))"
    by (simp add: rows_from_def)
  assume pr: "''coin_rank'' \<notin> set (first_headers files)
      \<and> (\<forall>g \<in> set files. \<forall>c. map_of m (parse_symbol_from_filename g) = Some c \<longrightarrow>
            (\<exists>n. py_int (coin_rank c) = Some n \<and> n < 999999))"
  have key_out: "sort_key_of r = Inr (the_key r)" if "r \<in> set out" for r
  proof -
    from that k(3) have "r \<in> set ?rows" by (metis set_mset_mset)
    then show ?thesis using a(2) by blast
  qed
  have last: "p < q"
    if g: "j < length files" "map_of m (parse_symbol_from_filename (files ! j)) \<noteq> None"
      and pq: "p < length out" "q < length out"
      and rp: "out ! p \<in> set (rows_from m files j)" and rq: "out ! q \<in> set (rows_from m files i)"
    for j p q
  proof (rule ccontr)
    assume "\<not> p < q"
    then have "q \<le> p" by simp
    from g obtain c where c: "map_of m (parse_symbol_from_filename (files ! j)) = Some c" by auto
    moreover have "files ! j \<in> set files" using g(1) by simp
    ultimately obtain n where n: "py_int (coin_rank c) = Some n" "n < 999999" using pr by blast
    have "map_of (out ! p) ''coin_rank'' = Some (Some (coin_rank c))"
      using rows_from_rank[OF rp] pr c by (simp add: coin_meta_for_def)
    moreover have "sort_key_of (out ! p) = Inr (the_key (out ! p))"
      using key_out pq(1) by simp
    ultimately have kp: "fst (the_key (out ! p)) = n"
      using sort_key_of_rank[of "out ! p" "the_key (out ! p)"] n(1) by auto
    have "map_of (out ! q) ''coin_rank'' = Some (Some ''999999'')"
      using rows_from_rank[OF rq] pr meta by simp
    moreover have "sort_key_of (out ! q) = Inr (the_key (out ! q))"
      using key_out pq(2) by simp
    ultimately have kq: "fst (the_key (out ! q)) = 999999"
      using sort_key_of_rank[of "out ! q" "the_key (out ! q)"] py_int_sentinel by auto
    have "the_key (out ! q) \<le> the_key (out ! p)"
      using sorted_nth_mono[OF k(2), of q p] \<open>q \<le> p\<close> pq by simp
    from fst_le_of_le[OF this] kp kq n(2) show False by simp
  qed
  show "\<forall>j < length files. map_of m (parse_symbol_from_filename (files ! j)) \<noteq> None \<longrightarrow>
          (\<forall>p q. p < length out \<and> q < length out
              \<and> out ! p \<in> set (rows_from m files j)
              \<and> out ! q \<in> set (rows_from m files i) \<longrightarrow> p < q)"
    using last by blast
qed

theorem unmatched_files_sort_last_witness:
  "(0::nat) < length [xrp_file, btc_file]
   \<and> map_of ranking_example (parse_symbol_from_filename ([xrp_file, btc_file] ! 0)) = None
   \<and> build_merged_rows [xrp_file, btc_file] ranking_example =
     Inr (example_headers, [btc_row_1, btc_row_2, xrp_row], [''xrp-usd-max.csv''])
   \<and> ''coin_rank'' \<notin> set (first_headers [xrp_file, btc_file])
   \<and> map_of ranking_example (parse_symbol_from_filename btc_file) = Some btc_coin
   \<and> py_int (coin_rank btc_coin) = Some 1
   \<and> coin_meta_for ranking_example xrp_file =
       \<lparr>coin_id = '''', coin_name = '''', coin_symbol = ''xrp'', coin_rank = ''999999''\<rparr>
   \<and> name xrp_file \<in> set [''xrp-usd-max.csv'']
   \<and> rows_from ranking_example [xrp_file, btc_file] 0 = [xrp_row]
   \<and> rows_from ranking_example [xrp_file, btc_file] 1 = [btc_row_2, btc_row_1]
   \<and> mset [xrp_row] \<subseteq># mset [btc_row_1, btc_row_2, xrp_row]"
  using unmatched_files_sort_last
    [of 0 "[xrp_file, btc_file]" ranking_example example_headers "[btc_row_1, btc_row_2, xrp_row]"
        "[''xrp-usd-max.csv'']"]
  apply (simp only: build_xrp_btc)
  apply (simp add: merge_eval example_eval str_eval)
  done

text \<open>
  Claim C2 as stated fails in two ways.  With a real rank of 1000000 the row of the
  unmatched file comes first, before the rows of the matched file.  And when the files have
  a column named \<open>coin_rank\<close>, the merged row of the unmatched file has that column's value
  as its rank, not 999999, and is sorted by it.
\<close>

theorem unmatched_rows_not_last_counterexample:
  "build_merged_rows [btc_file, xrp_file] [(''btc'', late_coin)] =
     Inr (example_headers,
          [xrp_row,
           [(''coin_rank'', Some ''1000000''), (''coin_id'', Some ''bitcoin''),
            (''coin_name'', Some ''Bitcoin''), (''coin_symbol'', Some ''btc''),
            (''source_file'', Some ''btc-usd-max.csv''),
            (''snapped_at'', Some ''2021-01-01''), (''price'', Some ''1'')],
           [(''coin_rank'', Some ''1000000''), (''coin_id'', Some ''bitcoin''),
            (''coin_name'', Some ''Bitcoin''), (''coin_symbol'', Some ''btc''),
            (''source_file'', Some ''btc-usd-max.csv''),
            (''snapped_at'', Some ''2021-01-02''), (''price'', Some ''2'')]],
          [''xrp-usd-max.csv''])
   \<and> map_of [(''btc'', late_coin)] (parse_symbol_from_filename xrp_file) = None
   \<and> build_merged_rows [ranked_btc_file, ranked_xrp_file] ranking_example =
     Inr (fixed_headers @ [''coin_rank''],
          [[(''coin_rank'', Some ''0''), (''coin_id'', Some ''''), (''coin_name'', Some ''''),
            (''coin_symbol'', Some ''xrp''), (''source_file'', Some ''xrp-usd-max.csv'')],
           [(''coin_rank'', Some ''5''), (''coin_id'', Some ''bitcoin''),
            (''coin_name'', Some ''Bitcoin''), (''coin_symbol'', Some ''btc''),
            (''source_file'', Some ''btc-usd-max.csv'')]],
          [''xrp-usd-max.csv''])
   \<and> map_of ranking_example (parse_symbol_from_filename ranked_xrp_file) = None"
  apply (simp only: build_late build_ranked)
  apply (simp add: merge_eval example_eval str_eval)
  done

lemma sort_key_order:
  "((r1, s1, t1) \<le> ((r2, s2, t2) :: sort_key)) =
     (r1 < r2 \<or> r1 = r2 \<and> (s1 < s2 \<or> s1 = s2 \<and> t1 \<le> t2))"
  by (auto simp: less_eq_prod_def less_prod_def)

lemma mset_concat_perm:
  assumes "mset xs = mset ys"
  shows "mset (concat (map B xs)) = mset (concat (map B ys))"
proof -
  have "mset (concat (map B zs)) = (\<Sum>z \<in># mset zs. mset (B z))" for zs
    by (induction zs) auto
  then show ?thesis using assms by simp
qed

lemma filter_single_block:
  assumes "\<forall>g \<in> set xs. g \<noteq> x0 \<longrightarrow> filter P (B g) = []"
  shows "filter P (concat (map B xs)) = concat (replicate (count_list xs x0) (filter P (B x0)))"
  using assms by (induction xs) auto

lemma count_list_perm: "mset xs = mset ys \<Longrightarrow> count_list xs x = count_list ys x"
  by (metis count_mset)

text \<open>
  When every file that has rows has a non-empty first line, every file is read under the
  final base headers.
\<close>

lemma rows_uniform:
  assumes "\<forall>f \<in> set files. fieldnames f = [] \<longrightarrow> reader_rows f = []"
  shows "concat (map (rows_from m files) [0..<length files])
       = concat (map (file_rows m (first_headers files)) files)"
proof -
  have r: "rows_from m files i = file_rows m (first_headers files) (files ! i)"
    if "i < length files" for i
  proof (cases "fieldnames (files ! i) = []")
    case True
    then have "reader_rows (files ! i) = []" using assms that by simp
    then show ?thesis by (simp add: rows_from_def file_rows_def)
  next
    case False
    then show ?thesis
      using headers_in_effect_own[OF that] by (simp add: rows_from_def file_rows_def)
  qed
  have "map (rows_from m files) [0..<length files]
      = map (\<lambda>i. file_rows m (first_headers files) (files ! i)) [0..<length files]"
    using r by simp
  also have "\<dots> = map (file_rows m (first_headers files)) (map ((!) files) [0..<length files])"
    by simp
  also have "\<dots> = map (file_rows m (first_headers files)) files"
    by (simp only: map_nth)
  finally show ?thesis by simp
qed

text \<open>
  Claim C1, as the code has it.  The merged rows are sorted by the key (rank as integer,
  symbol, \<open>snapped_at\<close> or the empty string), compared lexicographically, and any two of the
  keys can be compared.  Reordering the file list gives the same header and the same row
  sequence provided every file that has rows has a non-empty first line, both orders end
  with the same base headers, and no two rows of different files have the same sort key.
\<close>

theorem merged_rows_sorted_and_order_independent:
  assumes "build_merged_rows files m = Inr (hdr, out, un)"
  shows "(\<exists>ks. map sort_key_of out = map Inr ks \<and> sorted ks
            \<and> (\<forall>k \<in> set ks. \<forall>k' \<in> set ks. comparable k k'))
     \<and> (mset files' = mset files \<and> first_headers files' = first_headers files
         \<and> (\<forall>f \<in> set files. fieldnames f = [] \<longrightarrow> reader_rows f = [])
         \<and> (\<forall>f \<in> set files. \<forall>g \<in> set files. f \<noteq> g \<longrightarrow>
               (\<forall>r \<in> set (file_rows m (first_headers files) f).
                \<forall>r' \<in> set (file_rows m (first_headers files) g). sort_key_of r \<noteq> sort_key_of r'))
        \<longrightarrow> (\<exists>un'. build_merged_rows files' m = Inr (hdr, out, un')))"
proof -
  let ?base = "first_headers files"
  let ?B = "file_rows m ?base"
  let ?all = "concat (map (rows_from m files) [0..<length files])"
  from assms have s0: "sort_rows ?all = Inr out" and h: "hdr = fixed_headers @ ?base"
    by (auto simp: build_merged_rows_eq split: sum.splits)
  note k0 = sorted_output_keys[OF s0] and a0 = sort_rows_Inr[OF s0]
  have "set out = set ?all" using k0(3) by (metis set_mset_mset)
  then have "\<forall>k \<in> set (map the_key out). \<forall>k' \<in> set (map the_key out). comparable k k'"
    using a0(3) by auto
  then have sorted: "\<exists>ks. map sort_key_of out = map Inr ks \<and> sorted ks
            \<and> (\<forall>k \<in> set ks. \<forall>k' \<in> set ks. comparable k k')"
    using k0(1,2) by blast
  have perm: "\<exists>un'. build_merged_rows files' m = Inr (hdr, out, un')"
    if p: "mset files' = mset files" and b: "first_headers files' = ?base"
      and e: "\<forall>f \<in> set files. fieldnames f = [] \<longrightarrow> reader_rows f = []"
      and x: "\<forall>f \<in> set files. \<forall>g \<in> set files. f \<noteq> g \<longrightarrow>
               (\<forall>r \<in> set (?B f). \<forall>r' \<in> set (?B g). sort_key_of r \<noteq> sort_key_of r')"
  proof -
    let ?rows = "concat (map ?B files)"
    let ?rows' = "concat (map ?B files')"
    have setf: "set files' = set files" using p by (metis set_mset_mset)
    have u: "?all = ?rows" by (rule rows_uniform[OF e])
    have e': "\<forall>f \<in> set files'. fieldnames f = [] \<longrightarrow> reader_rows f = []" using e setf by simp
    have u': "concat (map (rows_from m files') [0..<length files']) = ?rows'"
      using rows_uniform[OF e', of m] b by simp
    have s: "sort_rows ?rows = Inr out" using s0 u by simp
    note k = sorted_output_keys[OF s] and a = sort_rows_Inr[OF s]
    have ms: "mset ?rows' = mset ?rows" using p by (rule mset_concat_perm)
    then have sets: "set ?rows' = set ?rows" by (metis set_mset_mset)
    have keys': "\<forall>r \<in> set ?rows'. \<not> isl (sort_key_of r)" using a(2) sets by simp
    have comp': "\<forall>r \<in> set ?rows'. \<forall>r' \<in> set ?rows'. comparable (the_key r) (the_key r')"
      using a(3) sets by simp
    have s': "sort_rows ?rows' = Inr (sort_key the_key ?rows')"
      by (rule sort_rows_ok[OF keys' comp'])
    have "sort_key the_key ?rows' = out"
    proof (rule properties_for_sort_key)
      show "mset out = mset ?rows'" using k(3) ms by simp
      show "sorted (map the_key out)" by (rule k(2))
      fix r assume "r \<in> set out"
      then have r: "r \<in> set ?rows" using k(3) by (metis set_mset_mset)
      then obtain f0 where f0: "f0 \<in> set files" "r \<in> set (?B f0)" by auto
      let ?P = "\<lambda>x. the_key r = the_key x"
      have other: "filter ?P (?B g) = []" if "g \<in> set files" "g \<noteq> f0" for g
      proof -
        have "\<not> ?P r'" if r': "r' \<in> set (?B g)" for r'
        proof
          assume e: "the_key r = the_key r'"
          have "r' \<in> set ?rows" using r' \<open>g \<in> set files\<close> by auto
          then have "sort_key_of r' = Inr (the_key r')" using a(2) by blast
          moreover have "sort_key_of r = Inr (the_key r)" using a(2) r by blast
          ultimately have "sort_key_of r = sort_key_of r'" by (simp only: e)
          moreover have "sort_key_of r \<noteq> sort_key_of r'"
            using bspec[OF bspec[OF x f0(1)] \<open>g \<in> set files\<close>] \<open>g \<noteq> f0\<close> f0(2) r' by auto
          ultimately show False by simp
        qed
        then show ?thesis by (simp add: filter_empty_conv)
      qed
      have flip: "filter ?P zs = filter (\<lambda>y. the_key y = the_key r) zs" for zs
        by (rule filter_cong[OF refl]) (rule eq_commute)
      have "filter ?P out = filter ?P ?rows"
        unfolding flip a(1) by (rule sort_key_stable)
      also have "\<dots> = concat (replicate (count_list files f0) (filter ?P (?B f0)))"
        using other by (intro filter_single_block) blast
      also have "\<dots> = concat (replicate (count_list files' f0) (filter ?P (?B f0)))"
        using count_list_perm[OF p] by simp
      also have "\<dots> = filter ?P ?rows'"
        using other setf by (intro filter_single_block[symmetric]) blast
      finally show "filter ?P out = filter ?P ?rows'" .
    qed
    with s' have "sort_rows ?rows' = Inr out" by simp
    then show ?thesis using b h u' by (simp add: build_merged_rows_eq)
  qed
  show ?thesis using sorted perm by blast
qed

theorem merged_rows_sorted_and_order_independent_witness:
  "build_merged_rows [xrp_file, btc_file] ranking_example =
     Inr (example_headers, [btc_row_1, btc_row_2, xrp_row], [''xrp-usd-max.csv''])
   \<and> mset [btc_file, xrp_file] = mset [xrp_file, btc_file]
   \<and> first_headers [btc_file, xrp_file] = first_headers [xrp_file, btc_file]
   \<and> fieldnames xrp_file \<noteq> [] \<and> fieldnames btc_file \<noteq> []
   \<and> list_all (\<lambda>r. list_all (\<lambda>r'. sort_key_of r \<noteq> sort_key_of r')
                    (file_rows ranking_example (first_headers [xrp_file, btc_file]) btc_file))
         (file_rows ranking_example (first_headers [xrp_file, btc_file]) xrp_file)
   \<and> map sort_key_of [btc_row_1, btc_row_2, xrp_row] =
       map Inr [(1, Some ''btc'', Some ''2021-01-01''), (1, Some ''btc'', Some ''2021-01-02''),
                (999999, Some ''xrp'', Some ''2020-05-05'')]
   \<and> sorted [(1::int, Some ''btc'', Some ''2021-01-01''), (1, Some ''btc'', Some ''2021-01-02''),
              (999999, Some ''xrp'', Some ''2020-05-05'')]
   \<and> (\<exists>un'. build_merged_rows [btc_file, xrp_file] ranking_example =
          Inr (example_headers, [btc_row_1, btc_row_2, xrp_row], un'))"
  using merged_rows_sorted_and_order_independent
    [of "[xrp_file, btc_file]" ranking_example example_headers "[btc_row_1, btc_row_2, xrp_row]"
        "[''xrp-usd-max.csv'']" "[btc_file, xrp_file]"]
  apply (simp only: build_xrp_btc build_btc_xrp)
  apply (simp add: merge_eval example_eval str_eval)
  done

lemma build_btc_eth:
  "build_merged_rows [btc_file, eth_file] ranking_example =
     Inr (fixed_headers @ [''snapped_at'', ''price''],
          [btc_row_1, btc_row_2,
           [(''coin_rank'', Some ''999999''), (''coin_id'', Some ''''), (''coin_name'', Some ''''),
            (''coin_symbol'', Some ''eth''), (''source_file'', Some ''eth-usd-max.csv''),
            (''snapped_at'', Some ''2021-03-03''), (''price'', Some '''')]],
          [''eth-usd-max.csv''])"
  by (simp add: merge_eval example_eval str_eval)

lemma build_eth_btc:
  "build_merged_rows [eth_file, btc_file] ranking_example =
     Inr (fixed_headers @ [''snapped_at'', ''total_volume''],
          [[(''coin_rank'', Some ''1''), (''coin_id'', Some ''bitcoin''),
            (''coin_name'', Some ''Bitcoin''), (''coin_symbol'', Some ''btc''),
            (''source_file'', Some ''btc-usd-max.csv''),
            (''snapped_at'', Some ''2021-01-01''), (''total_volume'', Some '''')],
           [(''coin_rank'', Some ''1''), (''coin_id'', Some ''bitcoin''),
            (''coin_name'', Some ''Bitcoin''), (''coin_symbol'', Some ''btc''),
            (''source_file'', Some ''btc-usd-max.csv''),
            (''snapped_at'', Some ''2021-01-02''), (''total_volume'', Some '''')],
           [(''coin_rank'', Some ''999999''), (''coin_id'', Some ''''), (''coin_name'', Some ''''),
            (''coin_symbol'', Some ''eth''), (''source_file'', Some ''eth-usd-max.csv''),
            (''snapped_at'', Some ''2021-03-03''), (''total_volume'', Some ''9'')]],
          [''eth-usd-max.csv''])"
  by (simp add: merge_eval example_eval str_eval)

lemma build_upper_btc:
  "build_merged_rows [upper_btc_file, btc_file] ranking_example =
     Inr (example_headers, [upper_btc_row, btc_row_1, btc_row_2], [])"
  by (simp add: merge_eval example_eval upper_btc_row_def str_eval)

lemma build_btc_upper:
  "build_merged_rows [btc_file, upper_btc_file] ranking_example =
     Inr (example_headers, [btc_row_1, upper_btc_row, btc_row_2], [])"
  by (simp add: merge_eval example_eval upper_btc_row_def str_eval)

lemma build_blank_xrp:
  "build_merged_rows [blank_first_file, xrp_file] ranking_example =
     Inr (example_headers,
          [[(''coin_rank'', Some ''999999''), (''coin_id'', Some ''''), (''coin_name'', Some ''''),
            (''coin_symbol'', Some ''ada''), (''source_file'', Some ''ada-usd-max.csv'')],
           xrp_row],
          [''ada-usd-max.csv'', ''xrp-usd-max.csv''])"
  by (simp add: merge_eval example_eval str_eval)

lemma build_xrp_blank:
  "build_merged_rows [xrp_file, blank_first_file] ranking_example =
     Inr (example_headers,
          [[(''coin_rank'', Some ''999999''), (''coin_id'', Some ''''), (''coin_name'', Some ''''),
            (''coin_symbol'', Some ''ada''), (''source_file'', Some ''ada-usd-max.csv''),
            (''snapped_at'', Some ''''), (''price'', Some '''')],
           xrp_row],
          [''xrp-usd-max.csv'', ''ada-usd-max.csv''])"
  by (simp add: merge_eval example_eval str_eval)

text \<open>
  Claim C1 as stated fails in three ways.  Two files with different headers give different
  output headers (and row columns) in the two orders.  Two files with the same symbol and a
  row with the same \<open>snapped_at\<close> give that pair of rows in the order of the file list,
  since the sort is stable.  And a file with a blank first line gives rows with the five
  fixed columns only when it is read first, and with the base headers when it is read after
  a file that has a header.
\<close>

theorem merged_rows_order_dependent_counterexample:
  "build_merged_rows [btc_file, eth_file] ranking_example =
     Inr (fixed_headers @ [''snapped_at'', ''price''],
          [btc_row_1, btc_row_2,
           [(''coin_rank'', Some ''999999''), (''coin_id'', Some ''''), (''coin_name'', Some ''''),
            (''coin_symbol'', Some ''eth''), (''source_file'', Some ''eth-usd-max.csv''),
            (''snapped_at'', Some ''2021-03-03''), (''price'', Some '''')]],
          [''eth-usd-max.csv''])
   \<and> build_merged_rows [eth_file, btc_file] ranking_example =
     Inr (fixed_headers @ [''snapped_at'', ''total_volume''],
          [[(''coin_rank'', Some ''1''), (''coin_id'', Some ''bitcoin''),
            (''coin_name'', Some ''Bitcoin''), (''coin_symbol'', Some ''btc''),
            (''source_file'', Some ''btc-usd-max.csv''),
            (''snapped_at'', Some ''2021-01-01''), (''total_volume'', Some '''')],
           [(''coin_rank'', Some ''1''), (''coin_id'', Some ''bitcoin''),
            (''coin_name'', Some ''Bitcoin''), (''coin_symbol'', Some ''btc''),
            (''source_file'', Some ''btc-usd-max.csv''),
            (''snapped_at'', Some ''2021-01-02''), (''total_volume'', Some '''')],
           [(''coin_rank'', Some ''999999''), (''coin_id'', Some ''''), (''coin_name'', Some ''''),
            (''coin_symbol'', Some ''eth''), (''source_file'', Some ''eth-usd-max.csv''),
            (''snapped_at'', Some ''2021-03-03''), (''total_volume'', Some ''9'')]],
          [''eth-usd-max.csv''])
   \<and> build_merged_rows [upper_btc_file, btc_file] ranking_example =
     Inr (example_headers, [upper_btc_row, btc_row_1, btc_row_2], [])
   \<and> build_merged_rows [btc_file, upper_btc_file] ranking_example =
     Inr (example_headers, [btc_row_1, upper_btc_row, btc_row_2], [])
   \<and> upper_btc_row \<noteq> btc_row_1
   \<and> build_merged_rows [blank_first_file, xrp_file] ranking_example =
     Inr (example_headers,
          [[(''coin_rank'', Some ''999999''), (''coin_id'', Some ''''), (''coin_name'', Some ''''),
            (''coin_symbol'', Some ''ada''), (''source_file'', Some ''ada-usd-max.csv'')],
           xrp_row],
          [''ada-usd-max.csv'', ''xrp-usd-max.csv''])
   \<and> build_merged_rows [xrp_file, blank_first_file] ranking_example =
     Inr (example_headers,
          [[(''coin_rank'', Some ''999999''), (''coin_id'', Some ''''), (''coin_name'', Some ''''),
            (''coin_symbol'', Some ''ada''), (''source_file'', Some ''ada-usd-max.csv''),
            (''snapped_at'', Some ''''), (''price'', Some '''')],
           xrp_row],
          [''xrp-usd-max.csv'', ''ada-usd-max.csv''])"
  apply (simp only: build_btc_eth build_eth_btc build_upper_btc build_btc_upper build_blank_xrp
      build_xrp_blank)
  apply (simp add: upper_btc_row_def btc_row_1_def)
  done

section \<open>Properties of the snapshot cleaner\<close>

lemma convert_snapped_at_Inr:
  "convert_snapped_at parse rs = Inr rs' \<Longrightarrow>
     rs' = map (stamped parse) rs
     \<and> (\<forall>r \<in> set rs. \<not> isl (to_datetime_cell parse (cell_of r ''snapped_at'')))"
  by (induction rs arbitrary: rs') (auto simp: stamped_def split: sum.splits)

lemma cell_of_update: "cell_of (AList.update k c r) k' = (if k' = k then c else cell_of r k')"
  by (simp add: cell_of_def update_conv')

lemma on_or_after_stamped:
  assumes "on_or_after cutoff (stamped parse r)"
    and "\<not> isl (to_datetime_cell parse (cell_of r ''snapped_at''))"
  shows "\<exists>s t. cell_of r ''snapped_at'' = Text s \<and> parse (replace_utc s) = Some t \<and> cutoff \<le> t
      \<and> stamped parse r = AList.update ''snapped_at'' (Stamp t) r"
  using assms
  by (auto simp: on_or_after_def stamped_def cell_of_update to_datetime_cell_def
      split: cell.splits option.splits)

lemma clean_eq:
  assumes "clean_coingecko_data parse df = Inr out"
  shows "\<exists>cutoff. parse ''2020-02-19'' = Some cutoff
      \<and> out = df\<lparr>records := filter (on_or_after cutoff)
                     (map (stamped parse) (filter complete_row (records df)))\<rparr>
      \<and> (\<forall>r \<in> set (filter complete_row (records df)).
            \<not> isl (to_datetime_cell parse (cell_of r ''snapped_at'')))"
  using assms
  by (auto simp: clean_coingecko_data_def dropna_def complete_row_def[abs_def]
      split: sum.splits if_splits option.splits dest!: convert_snapped_at_Inr)

text \<open>
  Claim C9.  When the cleaner produces an output, the output has the columns of the input
  in the same order and at most as many rows; its rows come, in order, from a subsequence
  of the input rows, each of which has a value for \<open>price\<close>, \<open>market_cap\<close> and
  \<open>total_volume\<close> and a \<open>snapped_at\<close> text that, with \<open>' UTC'\<close> removed, parses to a
  timestamp on or after that of 2020-02-19; the output row is the input row with that
  timestamp in its \<open>snapped_at\<close> cell, all other cells unchanged.
\<close>

theorem cleaner_keeps_complete_recent_rows:
  assumes "clean_coingecko_data parse df = Inr out"
  shows "columns out = columns df
     \<and> length (records out) \<le> length (records df)
     \<and> (\<exists>kept cutoff.
          parse ''2020-02-19'' = Some cutoff
          \<and> subseq kept (records df)
          \<and> list_all2
               (\<lambda>r r'. cell_of r ''price'' \<noteq> NaN \<and> cell_of r ''market_cap'' \<noteq> NaN
                      \<and> cell_of r ''total_volume'' \<noteq> NaN
                      \<and> (\<exists>s t. cell_of r ''snapped_at'' = Text s \<and> parse (replace_utc s) = Some t
                            \<and> cutoff \<le> t \<and> r' = AList.update ''snapped_at'' (Stamp t) r))
               kept (records out))"
proof -
  from clean_eq[OF assms] obtain cutoff where c: "parse ''2020-02-19'' = Some cutoff"
    and o: "out = df\<lparr>records := filter (on_or_after cutoff)
                     (map (stamped parse) (filter complete_row (records df)))\<rparr>"
    and p: "\<forall>r \<in> set (filter complete_row (records df)).
            \<not> isl (to_datetime_cell parse (cell_of r ''snapped_at''))"
    by blast
  let ?kept = "filter (\<lambda>r. on_or_after cutoff (stamped parse r)) (filter complete_row (records df))"
  have ro: "records out = map (stamped parse) ?kept"
    using o by (simp add: filter_map comp_def)
  have sub: "subseq ?kept (records df)"
    by (meson subseq_filter_left subseq_order.trans)
  have len: "length (records out) \<le> length (records df)"
    unfolding ro using list_emb_length[OF sub] by simp
  have each: "cell_of r ''price'' \<noteq> NaN \<and> cell_of r ''market_cap'' \<noteq> NaN
        \<and> cell_of r ''total_volume'' \<noteq> NaN
        \<and> (\<exists>s t. cell_of r ''snapped_at'' = Text s \<and> parse (replace_utc s) = Some t
              \<and> cutoff \<le> t \<and> stamped parse r = AList.update ''snapped_at'' (Stamp t) r)"
    if "r \<in> set ?kept" for r
    using that p on_or_after_stamped[of cutoff parse r] by (auto simp: complete_row_def)
  have "list_all2
               (\<lambda>r r'. cell_of r ''price'' \<noteq> NaN \<and> cell_of r ''market_cap'' \<noteq> NaN
                      \<and> cell_of r ''total_volume'' \<noteq> NaN
                      \<and> (\<exists>s t. cell_of r ''snapped_at'' = Text s \<and> parse (replace_utc s) = Some t
                            \<and> cutoff \<le> t \<and> r' = AList.update ''snapped_at'' (Stamp t) r))
               ?kept (records out)"
    unfolding ro list_all2_map2 by (rule list_all2_same[THEN iffD2]) (use each in blast)
  note la = this
  show ?thesis
  proof (intro conjI)
    show "columns out = columns df" by (subst o) simp
    show "length (records out) \<le> length (records df)" by (rule len)
    show "\<exists>kept cutoff.
          parse ''2020-02-19'' = Some cutoff
          \<and> subseq kept (records df)
          \<and> list_all2
               (\<lambda>r r'. cell_of r ''price'' \<noteq> NaN \<and> cell_of r ''market_cap'' \<noteq> NaN
                      \<and> cell_of r ''total_volume'' \<noteq> NaN
                      \<and> (\<exists>s t. cell_of r ''snapped_at'' = Text s \<and> parse (replace_utc s) = Some t
                            \<and> cutoff \<le> t \<and> r' = AList.update ''snapped_at'' (Stamp t) r))
               kept (records out)"
      using c sub la by blast
  qed
qed

lemma replace_utc_example:
  "replace_utc ''2021-01-01 00:00:00 UTC'' = ''2021-01-01 00:00:00''"
  "replace_utc ''2019-06-01 00:00:00 UTC'' = ''2019-06-01 00:00:00''"
  by simp_all

lemma clean_example: "clean_coingecko_data example_parse example_frame = Inr example_cleaned"
  by (simp add: clean_coingecko_data_def dropna_def example_frame_def example_cleaned_def
      cell_of_def to_datetime_cell_def on_or_after_def example_parse_def)

theorem cleaner_keeps_complete_recent_rows_witness:
  "clean_coingecko_data example_parse example_frame = Inr example_cleaned
   \<and> columns example_cleaned = columns example_frame
   \<and> length (records example_cleaned) \<le> length (records example_frame)
   \<and> subseq [records example_frame ! 2] (records example_frame)
   \<and> records example_cleaned = [AList.update ''snapped_at'' (Stamp 18628) (records example_frame ! 2)]"
  using cleaner_keeps_complete_recent_rows [of example_parse example_frame example_cleaned]
  apply (simp only: clean_example)
  apply (simp add: example_frame_def example_cleaned_def)
  done


end
